theory Spec2Isabelle
  imports Complex_Main "HOL-Library.Log_Nat" "HOL-Library.Monad_Syntax"
begin

section \<open>JavaScript numbers\<close>

text \<open>
  A JavaScript Number is an IEEE-754 double. A finite double is carried by the rational
  it denotes; every arithmetic result is rounded back to a double by \<open>fl\<close>
  (round to nearest, ties to even, gradual underflow, overflow to an infinity).
  Negative zero is identified with zero: truthiness, \<open>\<le>\<close>, \<open><\<close>, \<open>===\<close> and \<open>+\<close>,
  the only operations the modelled code applies to a zero, do not tell the two apart.
\<close>

datatype jsnum = NaN | PInf | NInf | Fin rat

text \<open>\<open>ilog2 a\<close> is \<open>\<lfloor>log\<^sub>2 a\<rfloor>\<close> for a positive rational \<open>a\<close>.\<close>

definition ilog2 :: "rat \<Rightarrow> int" where
  "ilog2 a = (let (p, q) = quotient_of a; d = bitlen p - bitlen q
     in if (if 0 \<le> d then q * 2 ^ nat d \<le> p else q \<le> p * 2 ^ nat (- d)) then d else d - 1)"

definition round_even :: "rat \<Rightarrow> int" where
  "round_even r = (let f = \<lfloor>r\<rfloor>; d = r - of_int f
     in if d < 1 / 2 then f else if 1 / 2 < d then f + 1 else if even f then f else f + 1)"

text \<open>
  The double nearest to a rational: 53 significant bits, the exponent bounded below by
  \<open>-1022\<close> (subnormals), and an infinity once the rounded magnitude reaches \<open>2\<^sup>1\<^sup>0\<^sup>2\<^sup>4\<close>,
  that is once its binary exponent reaches 1024. A decimal literal of the source such as
  \<open>7.35\<close> denotes \<open>fl (735 / 100)\<close>.
\<close>

definition fl :: "rat \<Rightarrow> jsnum" where
  "fl x = (if x = 0 then Fin 0 else
     let a = \<bar>x\<bar>; e = max (ilog2 a) (- 1022); q = 2 powi (e - 52);
         y = of_int (round_even (a / q)) * q
     in if 1024 \<le> ilog2 y then (if 0 < x then PInf else NInf) else Fin (sgn x * y))"

text \<open>The operators \<open>*\<close> and \<open>+\<close> on Numbers.\<close>

fun num_sign :: "jsnum \<Rightarrow> rat" where
  "num_sign NaN = 0"
| "num_sign PInf = 1"
| "num_sign NInf = - 1"
| "num_sign (Fin a) = sgn a"

fun fmul :: "jsnum \<Rightarrow> jsnum \<Rightarrow> jsnum" where
  "fmul NaN _ = NaN"
| "fmul _ NaN = NaN"
| "fmul (Fin a) (Fin b) = fl (a * b)"
| "fmul x y = (let s = num_sign x * num_sign y
     in if s = 0 then NaN else if 0 < s then PInf else NInf)"

fun fadd :: "jsnum \<Rightarrow> jsnum \<Rightarrow> jsnum" where
  "fadd NaN _ = NaN"
| "fadd _ NaN = NaN"
| "fadd (Fin a) (Fin b) = fl (a + b)"
| "fadd PInf NInf = NaN"
| "fadd NInf PInf = NaN"
| "fadd PInf _ = PInf"
| "fadd NInf _ = NInf"
| "fadd _ PInf = PInf"
| "fadd _ NInf = NInf"

text \<open>The relational operators \<open><\<close>, \<open>\<le>\<close> and \<open>===\<close> on Numbers: false whenever an operand is NaN.\<close>

fun num_less :: "jsnum \<Rightarrow> jsnum \<Rightarrow> bool" where
  "num_less (Fin a) (Fin b) = (a < b)"
| "num_less NInf (Fin b) = True"
| "num_less NInf PInf = True"
| "num_less (Fin a) PInf = True"
| "num_less _ _ = False"

definition num_eq :: "jsnum \<Rightarrow> jsnum \<Rightarrow> bool" where
  "num_eq x y = (x \<noteq> NaN \<and> x = y)"

definition num_le :: "jsnum \<Rightarrow> jsnum \<Rightarrow> bool" where
  "num_le x y = (num_less x y \<or> num_eq x y)"

text \<open>\<open>isNaN\<close> and the truthiness of a Number: \<open>0\<close> and \<open>NaN\<close> are falsy.\<close>

definition isNaN :: "jsnum \<Rightarrow> bool" where
  "isNaN x = (x = NaN)"

definition truthy_num :: "jsnum \<Rightarrow> bool" where
  "truthy_num x = (x \<noteq> NaN \<and> x \<noteq> Fin 0)"

text \<open>
  \<open>parseFloat(x.toFixed(2))\<close>. \<open>toFixed(2)\<close> prints a non-finite Number by name, a Number
  of magnitude at least \<open>10\<^sup>2\<^sup>1\<close> as \<open>ToString\<close> does, and any other as the integer \<open>n\<close>
  nearest to \<open>100 * x\<close> (the larger one on a tie, the sign set aside) with a point before
  its last two digits; \<open>parseFloat\<close> reads the names back, reads a \<open>ToString\<close> output back
  as the same Number, and reads the decimal \<open>n / 100\<close> as the double nearest to it.
\<close>

definition toFixed2_parsed :: "jsnum \<Rightarrow> jsnum" where
  "toFixed2_parsed x = (case x of
       Fin a \<Rightarrow> if 10 ^ 21 \<le> \<bar>a\<bar> then Fin a
                else fl (sgn a * (of_int \<lfloor>100 * \<bar>a\<bar> + 1 / 2\<rfloor> / 100))
     | _ \<Rightarrow> x)"

section \<open>JavaScript strings\<close>

text \<open>
  Strings are sequences of the code units \<open>U+0000\<close> to \<open>U+00FF\<close>. In this range the white space
  of \<open>trim\<close>, \<open>parseFloat\<close> and \<open>\s\<close> is tab, line feed, vertical tab, form feed, carriage
  return, space and the no-break space \<open>U+00A0\<close>. \<open>toUpperCase\<close> maps \<open>a\<close>..\<open>z\<close>; the other
  characters of the range that JavaScript changes become characters above \<open>U+007F\<close> or, for
  \<open>U+00DF\<close>, the pair \<open>SS\<close>, which is in no key of the rate table, so the lookup of an
  upper-cased country is the same.
\<close>

definition isWhiteSpace :: "char \<Rightarrow> bool" where
  "isWhiteSpace c =
     (c \<in> set [CHR 0x09, CHR 0x0A, CHR 0x0B, CHR 0x0C, CHR 0x0D, CHR '' '', CHR 0xA0])"

definition isDigit :: "char \<Rightarrow> bool" where
  "isDigit c = (48 \<le> (of_char c :: nat) \<and> (of_char c :: nat) \<le> 57)"

definition isHexDigit :: "char \<Rightarrow> bool" where
  "isHexDigit c = (let n = (of_char c :: nat)
     in (48 \<le> n \<and> n \<le> 57) \<or> (97 \<le> n \<and> n \<le> 102) \<or> (65 \<le> n \<and> n \<le> 70))"

definition digitVal :: "char \<Rightarrow> nat" where
  "digitVal c = (let n = (of_char c :: nat)
     in if 97 \<le> n then n - 87 else if 65 \<le> n then n - 55 else n - 48)"

definition trimStart :: "string \<Rightarrow> string" where
  "trimStart s = dropWhile isWhiteSpace s"

definition trim :: "string \<Rightarrow> string" where
  "trim s = rev (dropWhile isWhiteSpace (rev (dropWhile isWhiteSpace s)))"

definition upperChar :: "char \<Rightarrow> char" where
  "upperChar c = (let n = (of_char c :: nat)
     in if 97 \<le> n \<and> n \<le> 122 then char_of (n - 32) else c)"

definition toUpperCase :: "string \<Rightarrow> string" where
  "toUpperCase s = map upperChar s"

text \<open>The decimal rendering of a non-negative integer, as a template literal prints it.\<close>

fun showNat :: "nat \<Rightarrow> string" where
  "showNat n = (if n < 10 then [char_of (48 + n)]
     else showNat (n div 10) @ [char_of (48 + n mod 10)])"

declare showNat.simps [simp del]

text \<open>Truthiness of an optional string: \<open>undefined\<close>, \<open>null\<close> and \<open>''\<close> are falsy.\<close>

fun truthy_str :: "string option \<Rightarrow> bool" where
  "truthy_str None = False"
| "truthy_str (Some s) = (s \<noteq> [])"

fun truthy_onum :: "jsnum option \<Rightarrow> bool" where
  "truthy_onum None = False"
| "truthy_onum (Some x) = truthy_num x"

section \<open>constants\<close>

text \<open>
  \<open>SHIPPING_RATES\<close>: an object with four own keys. A key that \<open>toUpperCase\<close> returns has
  no lower-case letter, so it never names a property inherited from \<open>Object.prototype\<close>.
\<close>

definition SHIPPING_RATES :: "string \<Rightarrow> jsnum option" where
  "SHIPPING_RATES = map_of
     [(''SWEDEN'', fl (735 / 100)),
      (''CHINA'', fl (1153 / 100)),
      (''BRAZIL'', fl (1563 / 100)),
      (''AUSTRALIA'', fl (5009 / 100))]"

definition GENERIC_ERROR :: string where
  "GENERIC_ERROR = ''An unexpected error occurred''"

definition BOX_ADDED :: string where
  "BOX_ADDED = ''Box added successfully!''"

section \<open>utils\<close>

text \<open>An exception carries the constructor's name and the message.\<close>

datatype jserror = Error string | TypeError string

fun message :: "jserror \<Rightarrow> string" where
  "message (Error m) = m"
| "message (TypeError m) = m"

text \<open>
  \<open>calculateShippingCost(weight, country)\<close>: the weight is a Number or absent
  (\<open>undefined\<close>, \<open>null\<close>), the country a string or absent.
\<close>

definition calculateShippingCost :: "jsnum option \<Rightarrow> string option \<Rightarrow> jserror + jsnum" where
  "calculateShippingCost weight country =
     (if \<not> truthy_onum weight \<or> \<not> truthy_str country \<or> num_le (the weight) (Fin 0)
      then Inr (Fin 0)
      else let countryKey = toUpperCase (the country); rate = SHIPPING_RATES countryKey
        in if \<not> truthy_onum rate
           then Inl (Error (''Shipping rate not found for country: '' @ the country))
           else Inr (toFixed2_parsed (fmul (the weight) (the rate))))"

text \<open>
  \<open>parseFloat\<close> on a string: leading white space is dropped and the longest prefix that is
  a \<open>StrDecimalLiteral\<close> is read (a sign, then \<open>Infinity\<close> or digits with an optional
  fraction and an optional exponent); no such prefix gives \<open>NaN\<close>. The decimal value is
  rounded to the nearest double.
\<close>

definition decimal :: "string \<Rightarrow> nat" where
  "decimal ds = foldl (\<lambda>a c. 10 * a + digitVal c) 0 ds"

definition signedInteger :: "string \<Rightarrow> int option" where
  "signedInteger s = (case s of
       [] \<Rightarrow> None
     | c # r \<Rightarrow>
         if c = CHR ''-'' then
           (if takeWhile isDigit r = [] then None else Some (- int (decimal (takeWhile isDigit r))))
         else if c = CHR ''+'' then
           (if takeWhile isDigit r = [] then None else Some (int (decimal (takeWhile isDigit r))))
         else
           (if takeWhile isDigit s = [] then None else Some (int (decimal (takeWhile isDigit s)))))"

definition exponentPart :: "string \<Rightarrow> int" where
  "exponentPart s = (case s of
       [] \<Rightarrow> 0
     | c # r \<Rightarrow> if c = CHR ''e'' \<or> c = CHR ''E''
         then (case signedInteger r of None \<Rightarrow> 0 | Some k \<Rightarrow> k) else 0)"

definition parseFloat :: "string \<Rightarrow> jsnum" where
  "parseFloat s =
     (let t = trimStart s;
          neg = (take 1 t = ''-'');
          u = (if take 1 t = ''-'' \<or> take 1 t = ''+'' then drop 1 t else t)
      in if take 8 u = ''Infinity'' then (if neg then NInf else PInf)
         else
           let ip = takeWhile isDigit u;
               r1 = dropWhile isDigit u;
               fp = (if take 1 r1 = ''.'' then takeWhile isDigit (drop 1 r1) else []);
               r2 = (if take 1 r1 = ''.'' then dropWhile isDigit (drop 1 r1) else r1)
           in if ip = [] \<and> fp = [] then NaN
              else
                let v = of_nat (decimal (ip @ fp)) * 10 powi (exponentPart r2 - int (length fp))
                in fl (if neg then - v else v))"

text \<open>
  A form field holds a string (what an input element gives), a Number (what the tests and
  \<open>getSubmissionData\<close> give) or nothing. \<open>parseFloat\<close> first turns its argument into a
  string: \<open>undefined\<close> reads as \<open>NaN\<close>, and a Number reads back as itself.
\<close>

datatype field = Absent | NumV jsnum | StrV string

fun falsy_field :: "field \<Rightarrow> bool" where
  "falsy_field Absent = True"
| "falsy_field (NumV x) = (\<not> truthy_num x)"
| "falsy_field (StrV s) = (s = [])"

fun parseFloat_field :: "field \<Rightarrow> jsnum" where
  "parseFloat_field Absent = NaN"
| "parseFloat_field (NumV x) = x"
| "parseFloat_field (StrV s) = parseFloat s"

text \<open>
  The four fields a user enters. The form holds the weight as a \<open>field\<close>; the store
  receives it as a Number or not at all.
\<close>

record 'w boxData =
  receiverName :: "string option"
  weight :: 'w
  boxColor :: "string option"
  country :: "string option"

type_synonym formData = "field boxData"

text \<open>
  \<open>validateBoxForm\<close>: the \<open>errors\<close> object is the list of its entries in insertion order;
  each rule assigns its key at most once.
\<close>

record validation =
  isValid :: bool
  errors :: "(string \<times> string) list"

definition receiverNameErrors :: "formData \<Rightarrow> (string \<times> string) list" where
  "receiverNameErrors fd =
     (if \<not> truthy_str (map_option trim (receiverName fd)) then
        [(''receiverName'', ''Receiver name is required. Please enter the recipient's name.'')]
      else if 100 < length (trim (the (receiverName fd))) then
        [(''receiverName'', ''Receiver name cannot exceed 100 characters.'')]
      else [])"

definition weightErrors :: "formData \<Rightarrow> (string \<times> string) list" where
  "weightErrors fd =
     (if falsy_field (weight fd) \<or> weight fd = StrV [] then
        [(''weight'', ''Weight is required. Please enter the package weight in kilograms.'')]
      else
        let w = parseFloat_field (weight fd)
        in if isNaN w then
             [(''weight'', ''Please enter a valid numeric weight value.'')]
           else if num_less w (Fin 0) then
             [(''weight'', ''Negative values are not permitted for weight.'')]
           else if num_eq w (Fin 0) then
             [(''weight'', ''Weight must be greater than 0 kg.'')]
           else if num_less (Fin 10000) w then
             [(''weight'', ''Weight cannot exceed 10,000 kg. Please check the weight.'')]
           else [])"

definition countryErrors :: "formData \<Rightarrow> (string \<times> string) list" where
  "countryErrors fd =
     (if \<not> truthy_str (country fd) then
        [(''country'',
          ''Destination country is required. Please select a shipping destination.'')]
      else [])"

definition validateBoxForm :: "formData \<Rightarrow> validation" where
  "validateBoxForm fd =
     (let errs = receiverNameErrors fd @ weightErrors fd @ countryErrors fd
      in \<lparr>isValid = (length (map fst errs) = 0), errors = errs\<rparr>)"

text \<open>
  \<open>hexToRgb\<close>: the argument is a string or (\<open>None\<close>) any other value. The regular
  expression \<open>/^#?([a-f\d]{2})([a-f\d]{2})([a-f\d]{2})$/i\<close> matches an optional \<open>#\<close> followed by
  exactly six hexadecimal digits up to the end of the input; a \<open>#\<close> is no digit, so the
  optional \<open>#\<close> is taken whenever it is there.
\<close>

definition hexExec :: "string \<Rightarrow> (string \<times> string \<times> string) option" where
  "hexExec hex =
     (let t = (if take 1 hex = ''#'' then drop 1 hex else hex)
      in if length t = 6 \<and> list_all isHexDigit t
         then Some (take 2 t, take 2 (drop 2 t), take 2 (drop 4 t)) else None)"

text \<open>\<open>parseInt(s, 16)\<close> on a string of hexadecimal digits.\<close>

definition parseInt16 :: "string \<Rightarrow> nat" where
  "parseInt16 s = foldl (\<lambda>a c. 16 * a + digitVal c) 0 s"

definition hexToRgb :: "string option \<Rightarrow> string" where
  "hexToRgb hex =
     (if \<not> truthy_str hex then ''(0, 0, 0)''
      else case hexExec (the hex) of
          None \<Rightarrow> ''(0, 0, 0)''
        | Some (r1, g1, b1) \<Rightarrow>
            let r = parseInt16 r1; g = parseInt16 g1; b = parseInt16 b1
            in ''('' @ showNat r @ '', '' @ showNat g @ '', '' @ showNat b @ '')'')"

text \<open>
  \<open>rgbToColor\<close>: \<open>match\<close> with \<open>/\((\d+),\s*(\d+),\s*(\d+)\)/\<close> finds the leftmost place of the
  string where the pattern matches. The pattern is not anchored. Each greedy repetition
  is followed by a character outside its class, so it always takes the longest run:
  \<open>digitRun\<close> is \<open>\d+\<close>, and \<open>dropWhile isWhiteSpace\<close> is \<open>\s*\<close>.
\<close>

definition expectChar :: "char \<Rightarrow> string \<Rightarrow> string option" where
  "expectChar c s = (case s of [] \<Rightarrow> None | x # t \<Rightarrow> if x = c then Some t else None)"

definition digitRun :: "string \<Rightarrow> (string \<times> string) option" where
  "digitRun s = (if takeWhile isDigit s = [] then None
     else Some (takeWhile isDigit s, dropWhile isDigit s))"

definition rgbMatchHere :: "string \<Rightarrow> (string \<times> string \<times> string) option" where
  "rgbMatchHere s = do {
     s0 \<leftarrow> expectChar CHR ''('' s;
     (r, s1) \<leftarrow> digitRun s0;
     s2 \<leftarrow> expectChar CHR '','' s1;
     (g, s3) \<leftarrow> digitRun (dropWhile isWhiteSpace s2);
     s4 \<leftarrow> expectChar CHR '','' s3;
     (b, s5) \<leftarrow> digitRun (dropWhile isWhiteSpace s4);
     s6 \<leftarrow> expectChar CHR '')'' s5;
     Some (r, g, b)
   }"

fun rgbMatch :: "string \<Rightarrow> (string \<times> string \<times> string) option" where
  "rgbMatch [] = None"
| "rgbMatch (c # cs) =
     (case rgbMatchHere (c # cs) of Some m \<Rightarrow> Some m | None \<Rightarrow> rgbMatch cs)"

definition rgbToColor :: "string option \<Rightarrow> string" where
  "rgbToColor rgbString =
     (if \<not> truthy_str rgbString then ''#000000''
      else case rgbMatch (the rgbString) of
          None \<Rightarrow> ''#000000''
        | Some (r, g, b) \<Rightarrow> ''rgb('' @ r @ '', '' @ g @ '', '' @ b @ '')'')"

section \<open>hooks/useBoxForm\<close>

text \<open>
  \<open>getSubmissionData\<close> builds the candidate record from the form state; \<open>trim\<close> on a
  missing receiver name throws.
\<close>

definition getSubmissionData :: "formData \<Rightarrow> jserror + jsnum option boxData" where
  "getSubmissionData fd = (case receiverName fd of
       None \<Rightarrow> Inl (TypeError ''Cannot read properties of undefined (reading 'trim')'')
     | Some n \<Rightarrow> Inr \<lparr>receiverName = Some (trim n),
                      weight = Some (parseFloat_field (weight fd)),
                      boxColor = Some (hexToRgb (boxColor fd)),
                      country = country fd\<rparr>)"

definition validateForm :: "formData \<Rightarrow> bool" where
  "validateForm fd = isValid (validateBoxForm fd)"

section \<open>context/BoxContext\<close>

text \<open>
  A stored box. Every field that an update can overwrite may come to hold \<open>undefined\<close>
  (\<open>None\<close>).
\<close>

record box = "jsnum option boxData" +
  boxId :: string
  shippingCost :: "jsnum option"
  createdAt :: string
  updatedAt :: "string option"

record statistics =
  totalBoxes :: nat
  totalWeight :: jsnum
  totalCost :: jsnum

record state =
  boxes :: "box list"
  loading :: bool
  error :: "string option"
  statistics :: statistics

definition createInitialState :: state where
  "createInitialState =
     \<lparr>boxes = [], loading = False, error = None,
      statistics = \<lparr>totalBoxes = 0, totalWeight = Fin 0, totalCost = Fin 0\<rparr>\<rparr>"

text \<open>
  The partial fields of an update: the user's fields, and the two keys \<open>updateBox\<close> writes
  itself. A key of the object is not there, or is there with the value \<open>undefined\<close>, with
  \<open>null\<close>, or with a proper value. \<open>keyDefined\<close> is the test \<open>updates.k !== undefined\<close>,
  \<open>keyValue\<close> what \<open>updates.k\<close> reads, and \<open>spreadKey\<close> what the key leaves of a field in
  \<open>{ ...box, ...updates }\<close>: a key that is there replaces the field, also by \<open>undefined\<close>.
  An \<open>id\<close> or a \<open>createdAt\<close> key, when it is there, holds a string.
\<close>

datatype 'a key = NoKey | KeyUndefined | KeyNull | KeyVal 'a



fun spreadKey :: "'a key \<Rightarrow> 'a option \<Rightarrow> 'a option" where
  "spreadKey NoKey old = old"
| "spreadKey KeyUndefined old = None"
| "spreadKey KeyNull old = None"
| "spreadKey (KeyVal x) old = Some x"

record updates =
  u_receiverName :: "string key"
  u_weight :: "jsnum key"
  u_boxColor :: "string key"
  u_country :: "string key"
  u_boxId :: "string option"
  u_shippingCost :: "jsnum key"
  u_createdAt :: "string option"
  u_updatedAt :: "string key"

text \<open>
  An action. A payload may be missing (\<open>None\<close>), and a loaded array may hold \<open>undefined\<close>
  elements; \<open>Unknown\<close> stands for every other action type.
\<close>

datatype action =
    LOAD_BOXES "box option list option"
  | ADD_BOX "box option"
  | REMOVE_BOX "string option"
  | UPDATE_BOX "(string \<times> updates) option"
  | SET_LOADING bool
  | SET_ERROR string
  | CLEAR_ERROR
  | UPDATE_STATISTICS
  | Unknown string

text \<open>
  \<open>calculateStatistics\<close>: \<open>reduce\<close> runs over the array from the left. The count stays
  below \<open>2\<^sup>5\<^sup>3\<close>, where adding one is exact, and is a natural number here.
\<close>

definition statsStep :: "statistics \<Rightarrow> box \<Rightarrow> statistics" where
  "statsStep stats box =
     \<lparr>totalBoxes = totalBoxes stats + 1,
      totalWeight = fadd (totalWeight stats)
        (if truthy_onum (weight box) then the (weight box) else Fin 0),
      totalCost = fadd (totalCost stats)
        (if truthy_onum (shippingCost box) then the (shippingCost box) else Fin 0)\<rparr>"

definition calculateStatistics :: "box list \<Rightarrow> statistics" where
  "calculateStatistics bs =
     (if length bs = 0 then \<lparr>totalBoxes = 0, totalWeight = Fin 0, totalCost = Fin 0\<rparr>
      else foldl statsStep \<lparr>totalBoxes = 0, totalWeight = Fin 0, totalCost = Fin 0\<rparr> bs)"

text \<open>\<open>{ ...box, ...updates }\<close>: every key of \<open>updates\<close> replaces the box's.\<close>

definition mergeBox :: "box \<Rightarrow> updates \<Rightarrow> box" where
  "mergeBox b u =
     b\<lparr>receiverName := spreadKey (u_receiverName u) (receiverName b),
       weight := spreadKey (u_weight u) (weight b),
       boxColor := spreadKey (u_boxColor u) (boxColor b),
       country := spreadKey (u_country u) (country b),
       boxId := (case u_boxId u of None \<Rightarrow> boxId b | Some j \<Rightarrow> j),
       shippingCost := spreadKey (u_shippingCost u) (shippingCost b),
       createdAt := (case u_createdAt u of None \<Rightarrow> createdAt b | Some t \<Rightarrow> t),
       updatedAt := spreadKey (u_updatedAt u) (updatedAt b)\<rparr>"

text \<open>
  The body of the reducer's \<open>try\<close> block. The stored sequence holds records only:
  \<open>calculateStatistics\<close> reads a field of every element of the new array, which throws a
  \<open>TypeError\<close> on an \<open>undefined\<close> element (a missing \<open>ADD_BOX\<close> payload, an \<open>undefined\<close> element
  of a loaded array), and so does reading \<open>action.payload.id\<close> of a missing \<open>UPDATE_BOX\<close> payload in the
  callback of \<open>map\<close>, which runs once per stored box.
\<close>

definition reducerTry :: "state \<Rightarrow> action \<Rightarrow> jserror + state" where
  "reducerTry s a = (case a of
       LOAD_BOXES payload \<Rightarrow>
         (case those (case payload of None \<Rightarrow> [] | Some bs \<Rightarrow> bs) of
            None \<Rightarrow> Inl (TypeError ''Cannot read properties of undefined (reading 'weight')'')
          | Some bs \<Rightarrow>
              Inr (s\<lparr>boxes := bs, statistics := calculateStatistics bs,
                     loading := False, error := None\<rparr>))
     | ADD_BOX payload \<Rightarrow>
         (case payload of
            None \<Rightarrow> Inl (TypeError ''Cannot read properties of undefined (reading 'weight')'')
          | Some b \<Rightarrow>
              let newBoxes = boxes s @ [b]
              in Inr (s\<lparr>boxes := newBoxes, statistics := calculateStatistics newBoxes,
                        error := None, loading := False\<rparr>))
     | REMOVE_BOX payload \<Rightarrow>
         (let newBoxes = filter (\<lambda>box. Some (boxId box) \<noteq> payload) (boxes s)
          in Inr (s\<lparr>boxes := newBoxes, statistics := calculateStatistics newBoxes,
                    error := None\<rparr>))
     | UPDATE_BOX payload \<Rightarrow>
         (case payload of
            None \<Rightarrow>
              if boxes s = []
              then Inr (s\<lparr>boxes := [], statistics := calculateStatistics [], error := None\<rparr>)
              else Inl (TypeError ''Cannot read properties of undefined (reading 'id')'')
          | Some (i, upd) \<Rightarrow>
              let newBoxes = map (\<lambda>box. if boxId box = i then mergeBox box upd else box) (boxes s)
              in Inr (s\<lparr>boxes := newBoxes, statistics := calculateStatistics newBoxes,
                        error := None\<rparr>))
     | SET_LOADING payload \<Rightarrow> Inr (s\<lparr>loading := payload\<rparr>)
     | SET_ERROR payload \<Rightarrow> Inr (s\<lparr>error := Some payload, loading := False\<rparr>)
     | CLEAR_ERROR \<Rightarrow> Inr (s\<lparr>error := None\<rparr>)
     | UPDATE_STATISTICS \<Rightarrow> Inr (s\<lparr>statistics := calculateStatistics (boxes s)\<rparr>)
     | Unknown t \<Rightarrow> Inr s)"

text \<open>\<open>boxReducer\<close>: the \<open>try\<close> block and its \<open>catch\<close>. The console output is left out.\<close>

definition boxReducer :: "state \<Rightarrow> action \<Rightarrow> state" where
  "boxReducer s a = (case reducerTry s a of
       Inr s' \<Rightarrow> s'
     | Inl e \<Rightarrow> s\<lparr>error := Some GENERIC_ERROR, loading := False\<rparr>)"

text \<open>
  The action functions of the provider. Each returns its result object together with
  the state after its dispatches. What \<open>generateId\<close> and the clock return is given by the
  caller; the delay inside \<open>addBox\<close> is passed over, the two dispatches follow each other.
\<close>

datatype result = Success string "string option" | Failure string

record env =
  newId :: string
  createdNow :: string
  updatedNow :: string

definition errorMessage :: "jserror \<Rightarrow> string" where
  "errorMessage e = (if message e \<noteq> [] then message e else GENERIC_ERROR)"

definition boxWithDetails :: "env \<Rightarrow> jsnum option boxData \<Rightarrow> jsnum \<Rightarrow> box" where
  "boxWithDetails ev boxData cost =
     \<lparr>receiverName = receiverName boxData, weight = weight boxData,
      boxColor = boxColor boxData, country = country boxData,
      boxId = newId ev, shippingCost = Some cost,
      createdAt = createdNow ev, updatedAt = Some (updatedNow ev)\<rparr>"

definition addBox :: "env \<Rightarrow> jsnum option boxData option \<Rightarrow> state \<Rightarrow> result \<times> state" where
  "addBox ev boxData s =
     (let s1 = boxReducer s (SET_LOADING True);
          attempt =
            (case boxData of
               None \<Rightarrow> Inl (Error ''Invalid box data provided'')
             | Some d \<Rightarrow>
                 (case calculateShippingCost (weight d) (country d) of
                    Inl e \<Rightarrow> Inl e
                  | Inr cost \<Rightarrow> Inr (boxWithDetails ev d cost)))
      in case attempt of
           Inr b \<Rightarrow> (Success BOX_ADDED (Some (boxId b)), boxReducer s1 (ADD_BOX (Some b)))
         | Inl e \<Rightarrow> (Failure (errorMessage e), boxReducer s1 (SET_ERROR (errorMessage e))))"

definition removeBox :: "string option \<Rightarrow> state \<Rightarrow> result \<times> state" where
  "removeBox i s =
     (if \<not> truthy_str i
      then (Failure (errorMessage (Error ''Box ID is required'')),
            boxReducer s (SET_ERROR (errorMessage (Error ''Box ID is required''))))
      else (Success ''Box removed successfully'' None, boxReducer s (REMOVE_BOX i)))"





section \<open>components/AddBox and hooks/useFormValidation\<close>

text \<open>
  Submitting the form: \<open>handleSubmit\<close> clears the store's error, \<open>handleFormSubmission\<close>
  returns at once when \<open>validateForm\<close> fails, and otherwise awaits \<open>submitAction\<close>, which
  passes the submission data to \<open>addBox\<close>; an exception of \<open>submitAction\<close> ends in a
  notification. Notifications and the form's own state are left out.
\<close>

definition handleSubmit :: "env \<Rightarrow> formData \<Rightarrow> state \<Rightarrow> state" where
  "handleSubmit ev fd s =
     (let s1 = boxReducer s CLEAR_ERROR
      in if \<not> validateForm fd then s1
         else case getSubmissionData fd of
                Inl e \<Rightarrow> s1
              | Inr d \<Rightarrow> snd (addBox ev (Some d) s1))"

text \<open>
  The candidate object of \<open>addBox\<close> as \<open>validateBoxForm\<close> sees it when it is handed the
  same object.
\<close>

definition candidateAsForm :: "jsnum option boxData \<Rightarrow> formData" where
  "candidateAsForm d =
     \<lparr>receiverName = receiverName d,
      weight = (case weight d of None \<Rightarrow> Absent | Some x \<Rightarrow> NumV x),
      boxColor = boxColor d, country = country d\<rparr>"

section \<open>Definitions that follow the specification's words\<close>

text \<open>
  Rounding an exact product to two decimal places, half up and half to even (the
  specification leaves the choice open).
\<close>

definition spec_round2_half_up :: "rat \<Rightarrow> rat" where
  "spec_round2_half_up x = of_int \<lfloor>100 * x + 1 / 2\<rfloor> / 100"

definition spec_round2_half_even :: "rat \<Rightarrow> rat" where
  "spec_round2_half_even x = of_int (round_even (100 * x)) / 100"

text \<open>
  The statistics in the specification's words. A value counts as itself, and as 0 when
  it is missing or NaN. The sum of two Numbers is NaN when one of them is NaN or when
  they are the two infinities, an infinity when one of them is that infinity, and
  otherwise the double nearest to the exact sum. The sum of a sequence is taken from
  the left, starting at 0. \<open>isLoadAddRemoveUpdate\<close> names the action kinds after which the
  statistics are recomputed.
\<close>

fun counted :: "jsnum option \<Rightarrow> jsnum" where
  "counted None = Fin 0"
| "counted (Some NaN) = Fin 0"
| "counted (Some x) = x"

definition finitePart :: "jsnum \<Rightarrow> rat" where
  "finitePart x = (case x of Fin a \<Rightarrow> a | _ \<Rightarrow> 0)"

definition sumOfTwo :: "jsnum \<Rightarrow> jsnum \<Rightarrow> jsnum" where
  "sumOfTwo x y =
     (if x = NaN \<or> y = NaN \<or> (x = PInf \<and> y = NInf) \<or> (x = NInf \<and> y = PInf) then NaN
      else if x = PInf \<or> y = PInf then PInf
      else if x = NInf \<or> y = NInf then NInf
      else fl (finitePart x + finitePart y))"

fun sumFrom :: "jsnum \<Rightarrow> jsnum list \<Rightarrow> jsnum" where
  "sumFrom acc [] = acc"
| "sumFrom acc (x # xs) = sumFrom (sumOfTwo acc x) xs"

definition sumNumbers :: "jsnum list \<Rightarrow> jsnum" where
  "sumNumbers xs = sumFrom (Fin 0) xs"

fun isLoadAddRemoveUpdate :: "action \<Rightarrow> bool" where
  "isLoadAddRemoveUpdate (LOAD_BOXES p) = True"
| "isLoadAddRemoveUpdate (ADD_BOX p) = True"
| "isLoadAddRemoveUpdate (REMOVE_BOX p) = True"
| "isLoadAddRemoveUpdate (UPDATE_BOX p) = True"
| "isLoadAddRemoveUpdate a = False"


text \<open>
  Concrete inputs of the scenarios: two environments, the candidates for Alice and Bob,
  the form that gives Alice's candidate, and the store that holds her record.
\<close>

definition env1 :: env where
  "env1 = \<lparr>newId = ''box_1'', createdNow = ''2024-01-01T00:00:00.000Z'',
           updatedNow = ''2024-01-01T00:00:00.000Z''\<rparr>"

definition alice :: "jsnum option boxData" where
  "alice = \<lparr>receiverName = Some ''Alice'', weight = Some (Fin 2),
            boxColor = Some ''(255, 0, 0)'', country = Some ''China''\<rparr>"

definition env2 :: env where
  "env2 = \<lparr>newId = ''box_2'', createdNow = ''2024-01-03T00:00:00.000Z'',
           updatedNow = ''2024-01-03T00:00:00.000Z''\<rparr>"

definition bob :: "jsnum option boxData" where
  "bob = \<lparr>receiverName = Some ''Bob'', weight = Some (Fin 3),
          boxColor = Some ''(0, 0, 255)'', country = Some ''Sweden''\<rparr>"

definition aliceForm :: formData where
  "aliceForm = \<lparr>receiverName = Some ''Alice'', weight = StrV ''2'',
                boxColor = Some ''#ff0000'', country = Some ''China''\<rparr>"


definition aliceStore :: state where
  "aliceStore = snd (addBox env1 (Some alice) createInitialState)"

text \<open>
  The colour codec in the specification's words: the hexadecimal digits and their values,
  the triplet \<open>(r, g, b)\<close> that the encoder prints, a run of decimal digits, the shape
  \<open>(digits,\<close> spaces \<open>digits,\<close> spaces \<open>digits)\<close> that the decoder looks for, and a string
  that starts with that shape.
\<close>

definition hexDigits :: "(char \<times> nat) list" where
  "hexDigits = zip ''0123456789abcdef'' [0 ..< 16] @ zip ''ABCDEF'' [10 ..< 16]"

definition rgbTriplet :: "nat \<Rightarrow> nat \<Rightarrow> nat \<Rightarrow> string" where
  "rgbTriplet r g b = ''('' @ showNat r @ '', '' @ showNat g @ '', '' @ showNat b @ '')''"

definition isDigits :: "string \<Rightarrow> bool" where
  "isDigits ds = (ds \<noteq> [] \<and> list_all isDigit ds)"

definition rgbShape :: "string \<Rightarrow> string \<Rightarrow> string \<Rightarrow> string \<Rightarrow> string \<Rightarrow> string" where
  "rgbShape r w1 g w2 b = ''('' @ r @ '','' @ w1 @ g @ '','' @ w2 @ b @ '')''"

definition startsWithTriplet :: "string \<Rightarrow> string \<Rightarrow> string \<Rightarrow> string \<Rightarrow> bool" where
  "startsWithTriplet m r g b =
     (\<exists>w1 w2 post. m = rgbShape r w1 g w2 b @ post
        \<and> isDigits r \<and> isDigits g \<and> isDigits b
        \<and> list_all isWhiteSpace w1 \<and> list_all isWhiteSpace w2)"

section \<open>Properties of the pricing function\<close>

text \<open>The four rates as doubles.\<close>

lemma rate_values:
  "fl (735 / 100) = Fin (4137682157646643 / 562949953421312)"
  "fl (1153 / 100) = Fin (6490812962947727 / 562949953421312)"
  "fl (1563 / 100) = Fin (8798907771975107 / 562949953421312)"
  "fl (5009 / 100) = Fin (1762385197929595 / 35184372088832)"
  by code_simp+

lemma num_less_zero_truthy: "num_less (Fin 0) x \<Longrightarrow> truthy_num x \<and> \<not> num_le x (Fin 0)"
  by (cases x) (auto simp: truthy_num_def num_le_def num_eq_def)

lemma toUpperCase_Nil: "toUpperCase k = [] \<longleftrightarrow> k = []"
  by (simp add: toUpperCase_def)

text \<open>
  C2. The pricing function treats missing data unevenly. A weight that is absent, NaN,
  zero or negative gives 0 whatever the country; an absent or empty country gives 0
  whatever the weight; a positive weight with a non-empty country whose upper-cased key
  is not in the rate table throws an error naming the country.
\<close>

theorem C2_pricing_missing_data:
  "((w = None \<or> w = Some NaN \<or> (\<exists>x. w = Some x \<and> num_le x (Fin 0)))
      \<longrightarrow> calculateShippingCost w c = Inr (Fin 0))
   \<and> ((c = None \<or> c = Some []) \<longrightarrow> calculateShippingCost w c = Inr (Fin 0))
   \<and> (num_less (Fin 0) x \<and> k \<noteq> []
        \<and> toUpperCase k \<notin> set [''SWEDEN'', ''CHINA'', ''BRAZIL'', ''AUSTRALIA'']
      \<longrightarrow> calculateShippingCost (Some x) (Some k)
            = Inl (Error (''Shipping rate not found for country: '' @ k)))"
proof (intro conjI impI)
  assume "w = None \<or> w = Some NaN \<or> (\<exists>x. w = Some x \<and> num_le x (Fin 0))"
  then show "calculateShippingCost w c = Inr (Fin 0)"
    by (auto simp: calculateShippingCost_def truthy_num_def)
next
  assume "c = None \<or> c = Some []"
  then show "calculateShippingCost w c = Inr (Fin 0)"
    by (auto simp: calculateShippingCost_def)
next
  assume h: "num_less (Fin 0) x \<and> k \<noteq> []
    \<and> toUpperCase k \<notin> set [''SWEDEN'', ''CHINA'', ''BRAZIL'', ''AUSTRALIA'']"
  then have "SHIPPING_RATES (toUpperCase k) = None"
    by (simp add: SHIPPING_RATES_def)
  with h num_less_zero_truthy [of x]
  show "calculateShippingCost (Some x) (Some k)
          = Inl (Error (''Shipping rate not found for country: '' @ k))"
    by (simp add: calculateShippingCost_def)
qed

theorem C2_pricing_missing_data_witness:
  "calculateShippingCost (Some (Fin (- 1))) (Some ''SWEDEN'') = Inr (Fin 0)
   \<and> calculateShippingCost (Some (Fin 1)) (Some []) = Inr (Fin 0)
   \<and> calculateShippingCost (Some (Fin 1)) (Some ''INVALID'')
       = Inl (Error ''Shipping rate not found for country: INVALID'')"
proof -
  have h1: "num_le (Fin (- 1)) (Fin 0)"
    by (simp add: num_le_def)
  have h3: "num_less (Fin 0) (Fin 1) \<and> ''INVALID'' \<noteq> []
     \<and> toUpperCase ''INVALID'' \<notin> set [''SWEDEN'', ''CHINA'', ''BRAZIL'', ''AUSTRALIA'']"
    by code_simp
  from h1 h3
    C2_pricing_missing_data [of "Some (Fin (- 1))" "Some ''SWEDEN''" "Fin 1" "''INVALID''"]
    C2_pricing_missing_data [of "Some (Fin 1)" "Some []" "Fin 1" "''INVALID''"]
  show ?thesis by simp
qed

lemma rate_truthy_values:
  "truthy_num (fl (735 / 100))" "truthy_num (fl (1153 / 100))"
  "truthy_num (fl (1563 / 100))" "truthy_num (fl (5009 / 100))"
  by code_simp+

lemma rate_truthy:
  assumes "(k, r) \<in> set [(''SWEDEN'', 735 / 100), (''CHINA'', 1153 / 100),
                          (''BRAZIL'', 1563 / 100), (''AUSTRALIA'', 5009 / 100)]"
  shows "SHIPPING_RATES k = Some (fl r) \<and> truthy_num (fl r)"
proof -
  from assms consider "k = ''SWEDEN'' \<and> r = 735 / 100" | "k = ''CHINA'' \<and> r = 1153 / 100"
    | "k = ''BRAZIL'' \<and> r = 1563 / 100" | "k = ''AUSTRALIA'' \<and> r = 5009 / 100"
    by auto
  then show ?thesis
  proof cases
    case 1
    then have k: "k = ''SWEDEN''" and r: "r = 735 / 100" by blast+
    show ?thesis unfolding k r
      using rate_truthy_values(1) by (simp add: SHIPPING_RATES_def)
  next
    case 2
    then have k: "k = ''CHINA''" and r: "r = 1153 / 100" by blast+
    show ?thesis unfolding k r
      using rate_truthy_values(2) by (simp add: SHIPPING_RATES_def)
  next
    case 3
    then have k: "k = ''BRAZIL''" and r: "r = 1563 / 100" by blast+
    show ?thesis unfolding k r
      using rate_truthy_values(3) by (simp add: SHIPPING_RATES_def)
  next
    case 4
    then have k: "k = ''AUSTRALIA''" and r: "r = 5009 / 100" by blast+
    show ?thesis unfolding k r
      using rate_truthy_values(4) by (simp add: SHIPPING_RATES_def)
  qed
qed

text \<open>
  C3, as stated, fails: the weight \<open>0.5\<close> to Sweden costs \<open>3.67\<close>, while \<open>0.5 * 7.35 = 3.675\<close>
  rounds to \<open>3.68\<close> both half up and half to even. The double nearest to \<open>7.35\<close> lies
  below it, and so does the product.
\<close>

theorem C3_counterexample:
  "calculateShippingCost (Some (Fin (1 / 2))) (Some ''SWEDEN'')
     \<noteq> Inr (fl (spec_round2_half_up (1 / 2 * (735 / 100))))
   \<and> calculateShippingCost (Some (Fin (1 / 2))) (Some ''SWEDEN'')
     \<noteq> Inr (fl (spec_round2_half_even (1 / 2 * (735 / 100))))"
  by code_simp

lemma price_half_sweden_values:
  "calculateShippingCost (Some (Fin (1 / 2))) (Some ''SWEDEN'') = Inr (fl (367 / 100))"
  "spec_round2_half_up (1 / 2 * (735 / 100)) = 368 / 100"
  "spec_round2_half_even (1 / 2 * (735 / 100)) = 368 / 100"
  by code_simp+

lemma price_supported:
  assumes "0 < a"
    and "(toUpperCase c, r) \<in> set [(''SWEDEN'', 735 / 100), (''CHINA'', 1153 / 100),
                                     (''BRAZIL'', 1563 / 100), (''AUSTRALIA'', 5009 / 100)]"
  shows "calculateShippingCost (Some (Fin a)) (Some c)
           = Inr (toFixed2_parsed (fmul (Fin a) (fl r)))"
proof -
  from assms(2) have "toUpperCase c \<noteq> []" by auto
  then have c: "c \<noteq> []" by (simp add: toUpperCase_def)
  from assms(1) have w: "truthy_num (Fin a)" "\<not> num_le (Fin a) (Fin 0)"
    by (simp_all add: truthy_num_def num_le_def num_eq_def)
  from rate_truthy [OF assms(2)] c w show ?thesis
    by (simp add: calculateShippingCost_def)
qed

text \<open>
  C3, amended. For a supported country, matched through \<open>toUpperCase\<close>, and a weight
  \<open>w > 0\<close>, the price is the double product of \<open>w\<close> and the double nearest to the rate,
  printed with two decimals (nearest on its exact binary value, ties away from zero) and
  read back.
\<close>

theorem C3_price_rounds_double_product:
  assumes "0 < a"
    and "(toUpperCase c, r) \<in> set [(''SWEDEN'', 735 / 100), (''CHINA'', 1153 / 100),
                                     (''BRAZIL'', 1563 / 100), (''AUSTRALIA'', 5009 / 100)]"
  shows "calculateShippingCost (Some (Fin a)) (Some c)
           = Inr (toFixed2_parsed (fmul (Fin a) (fl r)))"
  using assms by (rule price_supported)

theorem C3_price_rounds_double_product_witness:
  "calculateShippingCost (Some (Fin 2)) (Some ''china'')
     = Inr (toFixed2_parsed (fmul (Fin 2) (fl (1153 / 100))))"
proof -
  have h: "(toUpperCase ''china'', 1153 / 100) \<in> set [(''SWEDEN'', 735 / 100), (''CHINA'', 1153 / 100),
                                     (''BRAZIL'', 1563 / 100), (''AUSTRALIA'', 5009 / 100 :: rat)]"
    by code_simp
  have a: "(0::rat) < 2" by simp
  from C3_price_rounds_double_product [OF a h] show ?thesis .
qed

section \<open>Properties of the Number model\<close>

text \<open>
  \<open>round_even\<close> returns a nearest integer, and \<open>ilog2\<close> the binary exponent of a positive
  rational.
\<close>

lemma round_even_nearest: "\<bar>of_int (round_even r) - r\<bar> \<le> 1 / 2"
proof -
  have "of_int \<lfloor>r\<rfloor> \<le> r" "r < of_int \<lfloor>r\<rfloor> + 1" by linarith+
  then show ?thesis
    by (auto simp: round_even_def Let_def)
qed

lemma bitlen_powi:
  assumes "0 < (p::int)"
  shows "2 powi (bitlen p - 1) \<le> (of_int p :: rat)" and "(of_int p :: rat) < 2 powi bitlen p"
proof -
  from bitlen_bounds [OF assms] have b: "2 ^ nat (bitlen p - 1) \<le> p" "p < 2 ^ nat (bitlen p)"
    by simp_all
  from assms have pos: "1 \<le> bitlen p"
    by (metis bitlen_eq_zero_iff bitlen_nonneg int_one_le_iff_zero_less less_le not_le)
  from b(1) have "(of_int (2 ^ nat (bitlen p - 1)) :: rat) \<le> of_int p"
    by (simp only: of_int_le_iff)
  with pos show "2 powi (bitlen p - 1) \<le> (of_int p :: rat)"
    by (simp add: power_int_def)
  from b(2) have "(of_int p :: rat) < of_int (2 ^ nat (bitlen p))"
    by (simp only: of_int_less_iff)
  with pos show "(of_int p :: rat) < 2 powi bitlen p"
    by (simp add: power_int_def)
qed

lemma powi_two_shift:
  "(2::rat) powi (x - y + 1) = 2 powi x / 2 powi (y - 1)"
  "(2::rat) powi (x - y - 1) = 2 powi (x - 1) / 2 powi y"
  by (simp_all add: power_int_diff power_int_add)

lemma ilog2_bounds:
  assumes "0 < a"
  shows "2 powi ilog2 a \<le> a" and "a < 2 powi (ilog2 a + 1)"
proof -
  obtain p q where pq: "quotient_of a = (p, q)" by fastforce
  then have q: "0 < q" and a: "a = of_int p / of_int q"
    using quotient_of_denom_pos quotient_of_div by blast+
  with assms have p: "0 < p"
    by (simp add: zero_less_divide_iff)
  let ?d = "bitlen p - bitlen q"
  have up: "a < 2 powi (?d + 1)"
  proof -
    have "a < 2 powi bitlen p / of_int q"
      unfolding a using bitlen_powi(2) [OF p] q by (simp add: divide_strict_right_mono)
    also have "\<dots> \<le> 2 powi bitlen p / 2 powi (bitlen q - 1)"
      using bitlen_powi(1) [OF q] q
      by (intro divide_left_mono) (auto simp: zero_less_power_int zero_less_mult_iff)
    also have "\<dots> = 2 powi (?d + 1)"
      by (simp only: powi_two_shift(1))
    finally show ?thesis .
  qed
  have lo: "2 powi (?d - 1) \<le> a"
  proof -
    have "2 powi (?d - 1) = 2 powi (bitlen p - 1) / (2 powi bitlen q :: rat)"
      by (simp only: powi_two_shift(2))
    also have "\<dots> \<le> 2 powi (bitlen p - 1) / of_int q"
      using bitlen_powi(2) [OF q] q
      by (intro divide_left_mono) (auto simp: zero_less_power_int zero_less_mult_iff)
    also have "\<dots> \<le> a"
      unfolding a using bitlen_powi(1) [OF p] q by (simp add: divide_right_mono)
    finally show ?thesis .
  qed
  have test: "(if 0 \<le> ?d then q * 2 ^ nat ?d \<le> p else q \<le> p * 2 ^ nat (- ?d)) \<longleftrightarrow> 2 powi ?d \<le> a"
  proof (cases "0 \<le> ?d")
    case True
    have "2 powi ?d \<le> a \<longleftrightarrow> (of_int (q * 2 ^ nat ?d) :: rat) \<le> of_int p"
      unfolding a using q True by (simp add: power_int_def pos_le_divide_eq mult.commute)
    also have "\<dots> \<longleftrightarrow> q * 2 ^ nat ?d \<le> p"
      by (simp only: of_int_le_iff)
    finally show ?thesis using True by simp
  next
    case False
    then have "2 powi ?d \<le> a \<longleftrightarrow> (of_int q :: rat) \<le> of_int (p * 2 ^ nat (- ?d))"
      unfolding a using q
      by (simp add: power_int_def pos_le_divide_eq field_simps)
    also have "\<dots> \<longleftrightarrow> q \<le> p * 2 ^ nat (- ?d)"
      by (simp only: of_int_le_iff)
    finally show ?thesis using False by simp
  qed
  have il: "ilog2 a = (if 2 powi ?d \<le> a then ?d else ?d - 1)"
    using test by (simp add: ilog2_def pq Let_def)
  show "2 powi ilog2 a \<le> a"
    using lo by (simp add: il)
  show "a < 2 powi (ilog2 a + 1)"
    using up by (simp add: il not_le)
qed


lemma round_even_mono: "0 \<le> r \<Longrightarrow> r \<le> of_int n \<Longrightarrow> 0 \<le> round_even r \<and> round_even r \<le> n"
proof -
  assume r: "0 \<le> r" "r \<le> of_int n"
  then have f: "0 \<le> \<lfloor>r\<rfloor>" "\<lfloor>r\<rfloor> \<le> n" by (simp_all add: floor_le_iff le_floor_iff)
  have "\<lfloor>r\<rfloor> < n \<or> r = of_int n"
  proof (cases "\<lfloor>r\<rfloor> = n")
    case True
    then have "of_int n \<le> r" using of_int_floor_le [of r] by simp
    with r(2) show ?thesis by simp
  next
    case False
    with f(2) show ?thesis by simp
  qed
  then show ?thesis
    using f by (auto simp: round_even_def Let_def)
qed

text \<open>
  A finite result of \<open>fl\<close> is an integer of magnitude at most \<open>2\<^sup>5\<^sup>3\<close> times the spacing of the
  doubles at the argument, and lies within half that spacing of the argument.
\<close>

lemma fl_finite:
  assumes "x \<noteq> 0" and "fl x = Fin y"
  shows "\<exists>n. y = of_int n * 2 powi (max (ilog2 \<bar>x\<bar>) (- 1022) - 52) \<and> \<bar>n\<bar> \<le> 2 ^ 53"
    and "\<bar>y - x\<bar> \<le> 2 powi (max (ilog2 \<bar>x\<bar>) (- 1022) - 52) / 2"
proof -
  define q :: rat where "q = 2 powi (max (ilog2 \<bar>x\<bar>) (- 1022) - 52)"
  define a where "a = \<bar>x\<bar>"
  define n where "n = round_even (a / q)"
  have qpos: "0 < q" by (simp add: q_def zero_less_power_int)
  from assms(1,2) have y: "y = sgn x * (of_int n * q)"
    by (simp add: fl_def Let_def q_def n_def a_def split: if_splits)
  from assms(1) have apos: "0 < a" by (simp add: a_def)
  have "a < 2 powi (ilog2 a + 1)" by (rule ilog2_bounds(2) [OF apos])
  also have "\<dots> \<le> 2 powi (max (ilog2 a) (- 1022) + 1)"
    by (intro power_int_increasing) simp_all
  also have "\<dots> = 2 ^ 53 * q"
    by (simp add: q_def a_def power_int_diff power_int_add)
  finally have "a / q \<le> of_int (2 ^ 53)"
    using qpos by (simp add: pos_divide_le_eq)
  moreover have "0 \<le> a / q" using qpos apos by simp
  ultimately have nb: "0 \<le> n" "n \<le> 2 ^ 53"
    unfolding n_def using round_even_mono by blast+
  have "y = of_int (if 0 < x then n else - n) * q"
    using assms(1) by (simp add: y sgn_if)
  moreover have "\<bar>if 0 < x then n else - n\<bar> \<le> 2 ^ 53"
    using nb by simp
  ultimately show "\<exists>n. y = of_int n * 2 powi (max (ilog2 \<bar>x\<bar>) (- 1022) - 52) \<and> \<bar>n\<bar> \<le> 2 ^ 53"
    unfolding q_def by blast
  have "\<bar>y - x\<bar> = \<bar>of_int n * q - a\<bar>"
  proof (cases "0 < x")
    case True
    then show ?thesis by (simp add: y a_def)
  next
    case False
    with assms(1) have "x < 0" by simp
    then have "y - x = - (of_int n * q - a)" by (simp add: y a_def)
    then show ?thesis by (simp only: abs_minus_cancel)
  qed
  also have "\<dots> = \<bar>(of_int n - a / q) * q\<bar>"
    using qpos by (simp add: left_diff_distrib)
  also have "\<dots> = \<bar>of_int n - a / q\<bar> * q"
    using qpos by (simp add: abs_mult)
  also have "\<dots> \<le> 1 / 2 * q"
    using round_even_nearest [of "a / q"] qpos unfolding n_def
    by (intro mult_right_mono) simp_all
  finally show "\<bar>y - x\<bar> \<le> 2 powi (max (ilog2 \<bar>x\<bar>) (- 1022) - 52) / 2"
    unfolding q_def by simp
qed

lemma round_even_of_int: "round_even (of_int m) = m"
  by (simp add: round_even_def)

lemma ilog2_less:
  assumes "0 < a" and "a < 2 powi k"
  shows "ilog2 a < k"
proof (rule ccontr)
  assume "\<not> ilog2 a < k"
  then have "(2::rat) powi k \<le> 2 powi ilog2 a"
    by (intro power_int_increasing) simp_all
  also have "\<dots> \<le> a" by (rule ilog2_bounds(1) [OF assms(1)])
  finally show False using assms(2) by simp
qed

lemma ilog2_ge:
  assumes "0 < a" and "2 powi k \<le> a"
  shows "k \<le> ilog2 a"
proof (rule ccontr)
  assume "\<not> k \<le> ilog2 a"
  then have "(2::rat) powi (ilog2 a + 1) \<le> 2 powi k"
    by (intro power_int_increasing) simp_all
  with ilog2_bounds(2) [OF assms(1)] assms(2) show False by simp
qed

text \<open>An integer of magnitude below \<open>2\<^sup>5\<^sup>3\<close> is a double: \<open>fl\<close> returns it unchanged.\<close>

lemma fl_of_int:
  assumes "\<bar>n\<bar> < 2 ^ 53"
  shows "fl (of_int n) = Fin (of_int n)"
proof (cases "n = 0")
  case True
  then show ?thesis by (simp add: fl_def)
next
  case False
  define a :: rat where "a = of_int \<bar>n\<bar>"
  define e where "e = ilog2 a"
  from False have apos: "0 < a" and a1: "2 powi 0 \<le> a"
    by (simp_all add: a_def)
  from assms have "a < of_int (2 ^ 53)"
    unfolding a_def by (simp only: of_int_less_iff)
  then have "a < 2 powi 53" by simp
  from ilog2_less [OF apos this] ilog2_ge [OF apos a1]
  have e: "0 \<le> e" "e \<le> 52" by (simp_all add: e_def)
  define q :: rat where "q = 2 powi (e - 52)"
  have qpos: "0 < q" by (simp add: q_def zero_less_power_int)
  have "q * 2 ^ nat (52 - e) = 2 powi (e - 52) * 2 powi (52 - e)"
    using e by (simp add: q_def power_int_def)
  also have "\<dots> = 1"
    by (simp flip: power_int_add)
  finally have q1: "q * 2 ^ nat (52 - e) = 1" .
  then have "a / q = a * 2 ^ nat (52 - e)"
    using qpos by (simp add: field_simps)
  also have "\<dots> = of_int (\<bar>n\<bar> * 2 ^ nat (52 - e))"
    by (simp add: a_def)
  finally have aq: "a / q = of_int (\<bar>n\<bar> * 2 ^ nat (52 - e))" .
  have y: "of_int (round_even (a / q)) * q = a"
    unfolding aq round_even_of_int using q1 by (simp add: a_def mult.assoc mult.commute)
  have m: "max (ilog2 a) (- 1022) = e" using e by (simp add: e_def)
  have ab: "\<bar>of_int n :: rat\<bar> = a" by (simp add: a_def)
  have "fl (of_int n) = Fin (sgn (of_int n) * a)"
    using False e by (simp add: fl_def Let_def ab m q_def [symmetric] y e_def [symmetric])
  also have "sgn (of_int n :: rat) * a = of_int n"
    by (simp add: a_def sgn_if abs_if)
  finally show ?thesis .
qed

section \<open>Properties of the reducer\<close>

lemma boxReducer_SET_LOADING: "boxReducer s (SET_LOADING b) = s\<lparr>loading := b\<rparr>"
  by (simp add: boxReducer_def reducerTry_def Let_def)

lemma boxReducer_SET_ERROR: "boxReducer s (SET_ERROR m) = s\<lparr>error := Some m, loading := False\<rparr>"
  by (simp add: boxReducer_def reducerTry_def Let_def)

lemma boxReducer_CLEAR_ERROR: "boxReducer s CLEAR_ERROR = s\<lparr>error := None\<rparr>"
  by (simp add: boxReducer_def reducerTry_def Let_def)

lemma boxReducer_ADD_BOX:
  "boxReducer s (ADD_BOX (Some b)) =
     s\<lparr>boxes := boxes s @ [b], statistics := calculateStatistics (boxes s @ [b]),
       error := None, loading := False\<rparr>"
  by (simp add: boxReducer_def reducerTry_def Let_def)

lemma boxReducer_REMOVE_BOX:
  "boxReducer s (REMOVE_BOX p) =
     s\<lparr>boxes := filter (\<lambda>box. Some (boxId box) \<noteq> p) (boxes s),
       statistics := calculateStatistics (filter (\<lambda>box. Some (boxId box) \<noteq> p) (boxes s)),
       error := None\<rparr>"
  by (simp add: boxReducer_def reducerTry_def Let_def)

lemma boxReducer_UPDATE_BOX:
  "boxReducer s (UPDATE_BOX (Some (i, u))) =
     s\<lparr>boxes := map (\<lambda>box. if boxId box = i then mergeBox box u else box) (boxes s),
       statistics := calculateStatistics
         (map (\<lambda>box. if boxId box = i then mergeBox box u else box) (boxes s)),
       error := None\<rparr>"
  by (simp add: boxReducer_def reducerTry_def Let_def)

lemma boxReducer_throws:
  "reducerTry s a = Inl e \<Longrightarrow> boxReducer s a = s\<lparr>error := Some GENERIC_ERROR, loading := False\<rparr>"
  by (simp add: boxReducer_def)

text \<open>
  C6. Whenever the body of the reducer throws, the result has the record sequence (and
  the statistics) of the previous state and the fixed generic message as its error; an
  action of an unknown type returns the state as it is.
\<close>

theorem C6_reducer_exception_atomic:
  "(reducerTry s a = Inl e \<longrightarrow>
      boxes (boxReducer s a) = boxes s
      \<and> statistics (boxReducer s a) = statistics s
      \<and> error (boxReducer s a) = Some ''An unexpected error occurred'')
   \<and> boxReducer s (Unknown t) = s"
  by (simp add: boxReducer_def reducerTry_def GENERIC_ERROR_def Let_def)

theorem C6_reducer_exception_atomic_witness:
  "reducerTry createInitialState (ADD_BOX None)
     = Inl (TypeError ''Cannot read properties of undefined (reading 'weight')'')
   \<and> boxes (boxReducer createInitialState (ADD_BOX None)) = boxes createInitialState
   \<and> error (boxReducer createInitialState (ADD_BOX None)) = Some ''An unexpected error occurred''"
proof -
  have h: "reducerTry createInitialState (ADD_BOX None)
     = Inl (TypeError ''Cannot read properties of undefined (reading 'weight')'')"
    by (simp add: reducerTry_def)
  from h C6_reducer_exception_atomic
    [of createInitialState "ADD_BOX None"
        "TypeError ''Cannot read properties of undefined (reading 'weight')''"]
  show ?thesis by simp
qed

text \<open>
  C10. In every state, a \<open>REMOVE_BOX\<close> action (whatever its payload) and an \<open>UPDATE_BOX\<close>
  action carrying an id and updates (whether or not a record has that id) leave the
  error empty.
\<close>

theorem C10_remove_update_clear_error:
  "error (boxReducer s (REMOVE_BOX p)) = None
   \<and> error (boxReducer s (UPDATE_BOX (Some (i, u)))) = None"
  by (simp add: boxReducer_REMOVE_BOX boxReducer_UPDATE_BOX)

section \<open>Properties of the statistics\<close>

text \<open>The addition of the model is the sum of two Numbers as described.\<close>

lemma fadd_sumOfTwo: "fadd x y = sumOfTwo x y"
  by (cases x; cases y) (simp_all add: sumOfTwo_def finitePart_def)

lemma foldl_fadd_sumFrom: "foldl fadd acc xs = sumFrom acc xs"
  by (induction xs arbitrary: acc) (simp_all add: fadd_sumOfTwo)

lemma or_zero_counted: "(if truthy_onum w then the w else Fin 0) = counted w"
proof (cases w)
  case None
  then show ?thesis by simp
next
  case (Some x)
  then show ?thesis by (cases x) (simp_all add: truthy_num_def)
qed

lemma foldl_statsStep:
  "foldl statsStep st bs =
     \<lparr>totalBoxes = totalBoxes st + length bs,
      totalWeight = sumFrom (totalWeight st) (map (\<lambda>b. counted (weight b)) bs),
      totalCost = sumFrom (totalCost st) (map (\<lambda>b. counted (shippingCost b)) bs)\<rparr>"
  by (induction bs arbitrary: st)
     (simp_all add: statsStep_def or_zero_counted fadd_sumOfTwo)

lemma calculateStatistics_sums:
  "calculateStatistics bs =
     \<lparr>totalBoxes = length bs,
      totalWeight = sumNumbers (map (\<lambda>b. counted (weight b)) bs),
      totalCost = sumNumbers (map (\<lambda>b. counted (shippingCost b)) bs)\<rparr>"
proof -
  have "calculateStatistics bs
          = foldl statsStep \<lparr>totalBoxes = 0, totalWeight = Fin 0, totalCost = Fin 0\<rparr> bs"
    by (cases bs) (simp_all add: calculateStatistics_def)
  then show ?thesis
    by (simp add: foldl_statsStep sumNumbers_def)
qed

text \<open>
  Whole numbers whose magnitudes total less than \<open>2\<^sup>5\<^sup>3\<close> are added without rounding.
\<close>

lemma sumFrom_whole:
  "\<bar>k\<bar> + (\<Sum>n\<leftarrow>ns. \<bar>n\<bar>) < 2 ^ 53 \<Longrightarrow>
     sumFrom (Fin (of_int k)) (map (\<lambda>n. Fin (of_int n)) ns) = Fin (of_int (k + sum_list ns))"
proof (induction ns arbitrary: k)
  case Nil
  then show ?case by simp
next
  case (Cons n ns)
  have "\<bar>k + n\<bar> \<le> \<bar>k\<bar> + \<bar>n\<bar>" by (rule abs_triangle_ineq)
  moreover have "0 \<le> (\<Sum>n\<leftarrow>ns. \<bar>n\<bar>)" by (rule sum_list_nonneg) auto
  ultimately have b: "\<bar>k + n\<bar> < 2 ^ 53" "\<bar>k + n\<bar> + (\<Sum>n\<leftarrow>ns. \<bar>n\<bar>) < 2 ^ 53"
    using Cons.prems by simp_all
  have "sumOfTwo (Fin (of_int k)) (Fin (of_int n)) = fl (of_int (k + n))"
    by (simp add: sumOfTwo_def finitePart_def)
  also have "\<dots> = Fin (of_int (k + n))"
    by (rule fl_of_int [OF b(1)])
  finally show ?case
    using Cons.IH [OF b(2)] by (simp add: add.assoc)
qed

lemma sumNumbers_whole:
  "(\<Sum>n\<leftarrow>ns. \<bar>n\<bar>) < 2 ^ 53 \<Longrightarrow>
     sumNumbers (map (\<lambda>n. Fin (of_int n)) ns) = Fin (of_int (sum_list ns))"
  using sumFrom_whole [of 0 ns] by (simp add: sumNumbers_def)

lemma reducerTry_recomputes:
  "isLoadAddRemoveUpdate a \<Longrightarrow> reducerTry s a = Inr s' \<Longrightarrow>
     statistics s' = calculateStatistics (boxes s')"
  by (cases a)
     (auto simp: reducerTry_def Let_def calculateStatistics_def
           split: option.splits if_splits prod.splits)

lemma boxReducer_keeps_statistics:
  "statistics s = calculateStatistics (boxes s) \<Longrightarrow>
     statistics (boxReducer s a) = calculateStatistics (boxes (boxReducer s a))"
  by (cases a)
     (auto simp: boxReducer_def reducerTry_def Let_def calculateStatistics_def
           split: option.splits if_splits prod.splits)

lemma price_2_china:
  "calculateShippingCost (Some (Fin 2)) (Some ''China'') = Inr (fl (2306 / 100))"
  by code_simp

lemma zero_plus_values:
  "fadd (Fin 0) (Fin 2) = Fin 2"
  "fadd (Fin 0) (fl (2306 / 100)) = fl (2306 / 100)"
  "truthy_num (fl (2306 / 100))"
  by code_simp+

lemma add_alice_statistics:
  assumes "d = \<lparr>receiverName = Some ''Alice'', weight = Some (Fin 2),
                 boxColor = c, country = Some ''China''\<rparr>"
  shows "statistics (snd (addBox ev (Some d) createInitialState))
           = \<lparr>totalBoxes = 1, totalWeight = Fin 2, totalCost = fl (2306 / 100)\<rparr>"
    and "boxes (snd (addBox ev (Some d) createInitialState)) = [boxWithDetails ev d (fl (2306 / 100))]"
  unfolding assms
  using price_2_china zero_plus_values
  by (simp_all add: addBox_def boxReducer_ADD_BOX boxReducer_SET_LOADING
        createInitialState_def calculateStatistics_def statsStep_def boxWithDetails_def
        truthy_num_def)

lemma remove_alice_statistics:
  assumes "d = \<lparr>receiverName = Some ''Alice'', weight = Some (Fin 2),
                 boxColor = c, country = Some ''China''\<rparr>"
    and "newId ev \<noteq> []"
  shows "totalBoxes (statistics (snd (removeBox (Some (newId ev))
           (snd (addBox ev (Some d) createInitialState))))) = 0"
  using assms(2)
  by (simp add: removeBox_def boxReducer_REMOVE_BOX add_alice_statistics(2) [OF assms(1)]
        boxWithDetails_def calculateStatistics_def)

lemma counted_number:
  "x \<noteq> NaN \<Longrightarrow> counted (Some x) = x"
  by (cases x) simp_all

lemma price_3_sweden:
  "calculateShippingCost (Some (Fin 3)) (Some ''Sweden'') = Inr (fl (2205 / 100))"
  by code_simp

lemma two_sums:
  "sumNumbers [Fin 2, Fin 3] = Fin 5"
  "sumNumbers [fl (2306 / 100), fl (2205 / 100)] = fl (4511 / 100)"
  by code_simp+

lemma aliceStore_boxes:
  "boxes aliceStore = [boxWithDetails env1 alice (fl (2306 / 100))]"
  unfolding aliceStore_def by (rule add_alice_statistics(2)) (simp add: alice_def)

lemma add_bob_boxes:
  "boxes (snd (addBox env2 (Some bob) aliceStore))
     = [boxWithDetails env1 alice (fl (2306 / 100)), boxWithDetails env2 bob (fl (2205 / 100))]"
proof -
  have "calculateShippingCost (weight bob) (country bob) = Inr (fl (2205 / 100))"
    using price_3_sweden by (simp add: bob_def)
  then show ?thesis
    by (simp add: addBox_def boxReducer_SET_LOADING boxReducer_ADD_BOX aliceStore_boxes)
qed

text \<open>
  C4, as stated, fails: \<open>addBox\<close> stores a record whose weight is NaN, the sum of that one
  weight is NaN, and the total weight of the statistics is 0.
\<close>

theorem C4_counterexample:
  "map weight (boxes (snd (addBox env1 (Some (alice\<lparr>weight := Some NaN\<rparr>)) createInitialState)))
     = [Some NaN]
   \<and> sumNumbers [NaN] = NaN
   \<and> totalWeight (statistics
        (snd (addBox env1 (Some (alice\<lparr>weight := Some NaN\<rparr>)) createInitialState))) = Fin 0"
  by code_simp

text \<open>
  C4, amended. After a load, add, remove or update action whose transition does not
  throw, the statistics are those computed from the new record sequence, and every
  action keeps statistics that agree with the records in agreement (a transition that
  throws changes neither). Computed statistics count the records and add up, from the
  left in double arithmetic, the weights and the costs, a missing or NaN value counting
  as 0; for whole-number weights whose magnitudes total less than \<open>2\<^sup>5\<^sup>3\<close> the total weight
  is their exact sum. Adding the record for Alice, weight 2, to China in the initial
  state gives one box, total weight 2 and total cost 23.06; removing its id gives no
  box.
\<close>

theorem C4_statistics_recomputed:
  "(isLoadAddRemoveUpdate a \<and> reducerTry s a = Inr s' \<longrightarrow>
      boxReducer s a = s' \<and> statistics s' = calculateStatistics (boxes s'))
   \<and> (statistics s = calculateStatistics (boxes s) \<longrightarrow>
      statistics (boxReducer s a) = calculateStatistics (boxes (boxReducer s a)))
   \<and> calculateStatistics bs =
        \<lparr>totalBoxes = length bs,
         totalWeight = sumNumbers (map (\<lambda>b. counted (weight b)) bs),
         totalCost = sumNumbers (map (\<lambda>b. counted (shippingCost b)) bs)\<rparr>
   \<and> (map (\<lambda>b. counted (weight b)) bs = map (\<lambda>n. Fin (of_int n)) ns
        \<and> (\<Sum>n\<leftarrow>ns. \<bar>n\<bar>) < 2 ^ 53 \<longrightarrow>
      totalWeight (calculateStatistics bs) = Fin (of_int (sum_list ns)))
   \<and> (d = \<lparr>receiverName = Some ''Alice'', weight = Some (Fin 2),
             boxColor = c, country = Some ''China''\<rparr> \<and> newId ev \<noteq> [] \<longrightarrow>
      statistics (snd (addBox ev (Some d) createInitialState))
        = \<lparr>totalBoxes = 1, totalWeight = Fin 2, totalCost = fl (2306 / 100)\<rparr>
      \<and> totalBoxes (statistics (snd (removeBox (Some (newId ev))
           (snd (addBox ev (Some d) createInitialState))))) = 0)"
proof (intro conjI impI)
  assume "isLoadAddRemoveUpdate a \<and> reducerTry s a = Inr s'"
  then show "boxReducer s a = s'" by (simp add: boxReducer_def)
next
  assume "isLoadAddRemoveUpdate a \<and> reducerTry s a = Inr s'"
  then have "isLoadAddRemoveUpdate a" and "reducerTry s a = Inr s'" by simp_all
  then show "statistics s' = calculateStatistics (boxes s')"
    by (rule reducerTry_recomputes)
next
  assume "statistics s = calculateStatistics (boxes s)"
  then show "statistics (boxReducer s a) = calculateStatistics (boxes (boxReducer s a))"
    by (rule boxReducer_keeps_statistics)
next
  show "calculateStatistics bs =
        \<lparr>totalBoxes = length bs,
         totalWeight = sumNumbers (map (\<lambda>b. counted (weight b)) bs),
         totalCost = sumNumbers (map (\<lambda>b. counted (shippingCost b)) bs)\<rparr>"
    by (rule calculateStatistics_sums)
next
  assume "map (\<lambda>b. counted (weight b)) bs = map (\<lambda>n. Fin (of_int n)) ns
        \<and> (\<Sum>n\<leftarrow>ns. \<bar>n\<bar>) < 2 ^ 53"
  then have m: "map (\<lambda>b. counted (weight b)) bs = map (\<lambda>n. Fin (of_int n)) ns"
    and b: "(\<Sum>n\<leftarrow>ns. \<bar>n\<bar>) < 2 ^ 53" by blast+
  have "totalWeight (calculateStatistics bs) = sumNumbers (map (\<lambda>b. counted (weight b)) bs)"
    by (simp add: calculateStatistics_sums)
  also have "\<dots> = Fin (of_int (sum_list ns))"
    unfolding m by (rule sumNumbers_whole [OF b])
  finally show "totalWeight (calculateStatistics bs) = Fin (of_int (sum_list ns))" .
next
  assume h: "d = \<lparr>receiverName = Some ''Alice'', weight = Some (Fin 2),
             boxColor = c, country = Some ''China''\<rparr> \<and> newId ev \<noteq> []"
  then have d: "d = \<lparr>receiverName = Some ''Alice'', weight = Some (Fin 2),
             boxColor = c, country = Some ''China''\<rparr>" ..
  show "statistics (snd (addBox ev (Some d) createInitialState))
        = \<lparr>totalBoxes = 1, totalWeight = Fin 2, totalCost = fl (2306 / 100)\<rparr>"
    by (rule add_alice_statistics(1) [OF d])
next
  assume h: "d = \<lparr>receiverName = Some ''Alice'', weight = Some (Fin 2),
             boxColor = c, country = Some ''China''\<rparr> \<and> newId ev \<noteq> []"
  then have d: "d = \<lparr>receiverName = Some ''Alice'', weight = Some (Fin 2),
             boxColor = c, country = Some ''China''\<rparr>" ..
  from h have e: "newId ev \<noteq> []" ..
  show "totalBoxes (statistics (snd (removeBox (Some (newId ev))
           (snd (addBox ev (Some d) createInitialState))))) = 0"
    by (rule remove_alice_statistics [OF d e])
qed

theorem C4_statistics_recomputed_witness:
  "statistics (boxReducer aliceStore (ADD_BOX (Some (boxWithDetails env2 bob (fl (2205 / 100))))))
     = calculateStatistics
         (boxes (boxReducer aliceStore (ADD_BOX (Some (boxWithDetails env2 bob (fl (2205 / 100)))))))
   \<and> statistics (boxReducer createInitialState (ADD_BOX None))
     = calculateStatistics (boxes (boxReducer createInitialState (ADD_BOX None)))
   \<and> calculateStatistics (boxes (snd (addBox env2 (Some bob) aliceStore)))
     = \<lparr>totalBoxes = 2, totalWeight = Fin 5, totalCost = fl (4511 / 100)\<rparr>
   \<and> totalWeight (calculateStatistics (boxes (snd (addBox env2 (Some bob) aliceStore))))
     = Fin (of_int (sum_list [2, 3]))
   \<and> statistics (snd (addBox env1 (Some alice) createInitialState))
     = \<lparr>totalBoxes = 1, totalWeight = Fin 2, totalCost = fl (2306 / 100)\<rparr>
   \<and> totalBoxes (statistics (snd (removeBox (Some ''box_1'')
        (snd (addBox env1 (Some alice) createInitialState))))) = 0"
proof -
  let ?A = "boxWithDetails env1 alice (fl (2306 / 100))"
  let ?B = "boxWithDetails env2 bob (fl (2205 / 100))"
  let ?a = "ADD_BOX (Some ?B)"
  let ?S = "snd (addBox env2 (Some bob) aliceStore)"
  note C4 = C4_statistics_recomputed
    [of ?a aliceStore "boxReducer aliceStore ?a" "boxes ?S" "[2, 3]" alice
        "Some ''(255, 0, 0)''" env1]
  have h1: "isLoadAddRemoveUpdate ?a
     \<and> reducerTry aliceStore ?a = Inr (boxReducer aliceStore ?a)"
    by (simp add: boxReducer_def reducerTry_def Let_def)
  have h2: "statistics createInitialState = calculateStatistics (boxes createInitialState)"
    by (simp add: createInitialState_def calculateStatistics_def)
  have nn: "fl (2306 / 100) \<noteq> NaN" "fl (2205 / 100) \<noteq> NaN"
    by code_simp+
  have cw: "map (\<lambda>b. counted (weight b)) (boxes ?S) = [Fin 2, Fin 3]"
    unfolding add_bob_boxes by (simp add: boxWithDetails_def alice_def bob_def)
  have "counted (Some (fl (2306 / 100))) = fl (2306 / 100)"
    "counted (Some (fl (2205 / 100))) = fl (2205 / 100)"
    by (rule counted_number [OF nn(1)]) (rule counted_number [OF nn(2)])
  then have cc: "map (\<lambda>b. counted (shippingCost b)) (boxes ?S)
      = [fl (2306 / 100), fl (2205 / 100)]"
    unfolding add_bob_boxes by (simp add: boxWithDetails_def)
  have h4: "map (\<lambda>b. counted (weight b)) (boxes ?S) = map (\<lambda>n. Fin (of_int n)) [2, 3]
     \<and> (\<Sum>n\<leftarrow>[2, 3]. \<bar>n\<bar>) < (2 ^ 53 :: int)"
    by (simp add: cw)
  have h5: "alice = \<lparr>receiverName = Some ''Alice'', weight = Some (Fin 2),
       boxColor = Some ''(255, 0, 0)'', country = Some ''China''\<rparr> \<and> newId env1 \<noteq> []"
    by (simp add: alice_def env1_def)
  from C4 [THEN conjunct1, THEN mp, OF h1]
  have r1: "statistics (boxReducer aliceStore ?a)
     = calculateStatistics (boxes (boxReducer aliceStore ?a))"
    by (rule conjunct2)
  from C4_statistics_recomputed [of "ADD_BOX None" createInitialState,
      THEN conjunct2, THEN conjunct1, THEN mp, OF h2]
  have r2: "statistics (boxReducer createInitialState (ADD_BOX None))
     = calculateStatistics (boxes (boxReducer createInitialState (ADD_BOX None)))"
    .
  from C4 [THEN conjunct2, THEN conjunct2, THEN conjunct1]
  have r3: "calculateStatistics (boxes ?S)
     = \<lparr>totalBoxes = 2, totalWeight = Fin 5, totalCost = fl (4511 / 100)\<rparr>"
    unfolding cw cc two_sums by (simp add: add_bob_boxes)
  from C4 [THEN conjunct2, THEN conjunct2, THEN conjunct2, THEN conjunct1, THEN mp, OF h4]
  have r4: "totalWeight (calculateStatistics (boxes ?S)) = Fin (of_int (sum_list [2, 3]))" .
  from C4 [THEN conjunct2, THEN conjunct2, THEN conjunct2, THEN conjunct2, THEN mp, OF h5]
  have r5: "statistics (snd (addBox env1 (Some alice) createInitialState))
        = \<lparr>totalBoxes = 1, totalWeight = Fin 2, totalCost = fl (2306 / 100)\<rparr>
      \<and> totalBoxes (statistics (snd (removeBox (Some (newId env1))
           (snd (addBox env1 (Some alice) createInitialState))))) = 0" .
  have e: "newId env1 = ''box_1''" by (simp add: env1_def)
  from r1 r2 r3 r4 r5 [unfolded e] show ?thesis
    by (intro conjI) (erule conjunct1 conjunct2 | assumption)+
qed

section \<open>Properties of the validation function\<close>

lemma isValid_iff: "isValid (validateBoxForm fd) \<longleftrightarrow> errors (validateBoxForm fd) = []"
  by (simp add: validateBoxForm_def Let_def)

lemma errors_weight:
  "map_of (errors (validateBoxForm fd)) ''weight'' = map_of (weightErrors fd) ''weight''"
  by (simp add: validateBoxForm_def Let_def receiverNameErrors_def weightErrors_def
        countryErrors_def map_add_def)

text \<open>
  The weight rule, branch by branch: a missing or empty weight is reported as required
  (and so are the Numbers \<open>0\<close> and \<open>NaN\<close>, which are falsy); any other weight is parsed, and
  NaN, a negative value, zero and a value above 10000 each have their message.
\<close>

lemma weightErrors_branches:
  "falsy_field w \<Longrightarrow> weightErrors (fd\<lparr>weight := w\<rparr>) =
     [(''weight'', ''Weight is required. Please enter the package weight in kilograms.'')]"
  "\<not> falsy_field w \<Longrightarrow> isNaN (parseFloat_field w) \<Longrightarrow> weightErrors (fd\<lparr>weight := w\<rparr>) =
     [(''weight'', ''Please enter a valid numeric weight value.'')]"
  "\<not> falsy_field w \<Longrightarrow> num_less (parseFloat_field w) (Fin 0) \<Longrightarrow>
     weightErrors (fd\<lparr>weight := w\<rparr>) =
     [(''weight'', ''Negative values are not permitted for weight.'')]"
  "\<not> falsy_field w \<Longrightarrow> parseFloat_field w = Fin 0 \<Longrightarrow> weightErrors (fd\<lparr>weight := w\<rparr>) =
     [(''weight'', ''Weight must be greater than 0 kg.'')]"
  "\<not> falsy_field w \<Longrightarrow> num_less (Fin 10000) (parseFloat_field w) \<Longrightarrow>
     weightErrors (fd\<lparr>weight := w\<rparr>) =
     [(''weight'', ''Weight cannot exceed 10,000 kg. Please check the weight.'')]"
  "\<not> falsy_field w \<Longrightarrow> num_less (Fin 0) (parseFloat_field w) \<Longrightarrow>
     \<not> num_less (Fin 10000) (parseFloat_field w) \<Longrightarrow> weightErrors (fd\<lparr>weight := w\<rparr>) = []"
  by (cases "parseFloat_field w";
      cases w; auto simp: weightErrors_def Let_def isNaN_def num_eq_def)+

lemma weight_string_zero:
  "map_of (errors (validateBoxForm (fd\<lparr>weight := StrV ''0''\<rparr>))) ''weight''
     = Some ''Weight must be greater than 0 kg.''"
proof -
  have "parseFloat ''0'' = Fin 0" by code_simp
  then show ?thesis
    by (simp add: errors_weight weightErrors_branches(4))
qed

text \<open>
  C7 at the Number zero: the candidate \<open>{receiverName: 'John', weight: 0, country: 'Sweden'}\<close>
  is rejected, but with the message for a missing weight: \<open>!formData.weight\<close> holds for
  \<open>0\<close>, so the branch \<open>weight === 0\<close> is reached for a string such as \<open>'0'\<close> only.
\<close>

theorem C7_numeric_zero_reports_required:
  "validateBoxForm \<lparr>receiverName = Some ''John'', weight = NumV (Fin 0),
                    boxColor = None, country = Some ''Sweden''\<rparr>
     = \<lparr>isValid = False,
        errors = [(''weight'',
          ''Weight is required. Please enter the package weight in kilograms.'')]\<rparr>"
  by code_simp

section \<open>Properties of adding a box\<close>

lemma addBox_priced:
  "calculateShippingCost (weight d) (country d) = Inr cost \<Longrightarrow>
     snd (addBox ev (Some d) s) =
       s\<lparr>boxes := boxes s @ [boxWithDetails ev d cost],
         statistics := calculateStatistics (boxes s @ [boxWithDetails ev d cost]),
         error := None, loading := False\<rparr>"
  by (simp add: addBox_def boxReducer_SET_LOADING boxReducer_ADD_BOX)

lemma addBox_unpriced:
  "calculateShippingCost (weight d) (country d) = Inl e \<Longrightarrow>
     snd (addBox ev (Some d) s) = s\<lparr>error := Some (errorMessage e), loading := False\<rparr>"
  by (simp add: addBox_def boxReducer_SET_LOADING boxReducer_SET_ERROR)

lemma addBox_no_object:
  "snd (addBox ev None s) = s\<lparr>error := Some ''Invalid box data provided'', loading := False\<rparr>"
  by (simp add: addBox_def boxReducer_SET_LOADING boxReducer_SET_ERROR errorMessage_def)

lemma valid_has_submission:
  "isValid (validateBoxForm fd) \<Longrightarrow> \<exists>d. getSubmissionData fd = Inr d"
  by (cases "receiverName fd")
     (simp_all add: validateBoxForm_def Let_def receiverNameErrors_def getSubmissionData_def)

text \<open>
  C1, as stated, fails: the candidate for Alice with weight \<open>-1\<close> does not pass
  \<open>validateBoxForm\<close>, and \<open>addBox\<close> appends a record for it, priced 0.
\<close>

theorem C1_counterexample:
  "\<not> isValid (validateBoxForm (candidateAsForm (alice\<lparr>weight := Some (Fin (- 1))\<rparr>)))
   \<and> boxes (snd (addBox env1 (Some (alice\<lparr>weight := Some (Fin (- 1))\<rparr>)) createInitialState))
     = [boxWithDetails env1 (alice\<lparr>weight := Some (Fin (- 1))\<rparr>) (Fin 0)]"
proof -
  have v: "\<not> isValid (validateBoxForm (candidateAsForm (alice\<lparr>weight := Some (Fin (- 1))\<rparr>)))"
    by (simp add: validateBoxForm_def Let_def weightErrors_def candidateAsForm_def alice_def
          truthy_num_def isNaN_def)
  have "calculateShippingCost (weight (alice\<lparr>weight := Some (Fin (- 1))\<rparr>))
          (country (alice\<lparr>weight := Some (Fin (- 1))\<rparr>)) = Inr (Fin 0)"
    by (simp add: calculateShippingCost_def num_le_def alice_def)
  then have "boxes (snd (addBox env1 (Some (alice\<lparr>weight := Some (Fin (- 1))\<rparr>)) createInitialState))
     = [boxWithDetails env1 (alice\<lparr>weight := Some (Fin (- 1))\<rparr>) (Fin 0)]"
    by (simp add: addBox_priced createInitialState_def)
  with v show ?thesis by (rule conjI)
qed

text \<open>
  C1, amended. Validation is the submit handler's: when \<open>validateBoxForm\<close> rejects the
  form data the handler appends no record, and when it accepts them the handler passes
  the submission data to \<open>addBox\<close>. \<open>addBox\<close> itself does not validate: for an object it
  appends one record whenever the pricing function returns a cost, appends none when
  the pricing function throws, and appends none for a candidate that is no object.
\<close>

theorem C1_submit_validates_add_does_not:
  "(\<not> isValid (validateBoxForm fd) \<longrightarrow> boxes (handleSubmit ev fd s) = boxes s)
   \<and> (isValid (validateBoxForm fd) \<longrightarrow>
        (\<exists>d. getSubmissionData fd = Inr d
           \<and> handleSubmit ev fd s = snd (addBox ev (Some d) (boxReducer s CLEAR_ERROR))))
   \<and> (calculateShippingCost (weight c) (country c) = Inr cost \<longrightarrow>
        boxes (snd (addBox ev (Some c) s)) = boxes s @ [boxWithDetails ev c cost]
        \<and> error (snd (addBox ev (Some c) s)) = None)
   \<and> (calculateShippingCost (weight c) (country c) = Inl e \<longrightarrow>
        boxes (snd (addBox ev (Some c) s)) = boxes s)
   \<and> boxes (snd (addBox ev None s)) = boxes s"
proof (intro conjI impI)
  assume "\<not> isValid (validateBoxForm fd)"
  then show "boxes (handleSubmit ev fd s) = boxes s"
    by (simp add: handleSubmit_def validateForm_def boxReducer_CLEAR_ERROR)
next
  assume v: "isValid (validateBoxForm fd)"
  then obtain d where d: "getSubmissionData fd = Inr d"
    using valid_has_submission by blast
  with v have "handleSubmit ev fd s = snd (addBox ev (Some d) (boxReducer s CLEAR_ERROR))"
    by (simp add: handleSubmit_def validateForm_def)
  with d show "\<exists>d. getSubmissionData fd = Inr d
     \<and> handleSubmit ev fd s = snd (addBox ev (Some d) (boxReducer s CLEAR_ERROR))"
    by blast
next
  assume "calculateShippingCost (weight c) (country c) = Inr cost"
  then show "boxes (snd (addBox ev (Some c) s)) = boxes s @ [boxWithDetails ev c cost]"
    by (simp add: addBox_priced)
next
  assume "calculateShippingCost (weight c) (country c) = Inr cost"
  then show "error (snd (addBox ev (Some c) s)) = None"
    by (simp add: addBox_priced)
next
  assume "calculateShippingCost (weight c) (country c) = Inl e"
  then show "boxes (snd (addBox ev (Some c) s)) = boxes s"
    by (simp add: addBox_unpriced)
next
  show "boxes (snd (addBox ev None s)) = boxes s"
    by (simp add: addBox_no_object)
qed

theorem C1_submit_validates_add_does_not_witness:
  "boxes (handleSubmit env1 (candidateAsForm (alice\<lparr>weight := Some (Fin (- 1))\<rparr>)) createInitialState)
     = boxes createInitialState
   \<and> handleSubmit env1 aliceForm createInitialState
       = snd (addBox env1 (Some alice) (boxReducer createInitialState CLEAR_ERROR))
   \<and> boxes (snd (addBox env1 (Some alice) createInitialState))
       = boxes createInitialState @ [boxWithDetails env1 alice (fl (2306 / 100))]
   \<and> boxes (snd (addBox env1 (Some (alice\<lparr>country := Some ''Mars''\<rparr>)) createInitialState))
       = boxes createInitialState"
proof -
  have h1: "\<not> isValid (validateBoxForm (candidateAsForm (alice\<lparr>weight := Some (Fin (- 1))\<rparr>)))"
    by (simp add: validateBoxForm_def Let_def weightErrors_def candidateAsForm_def alice_def
          truthy_num_def isNaN_def)
  have h2: "isValid (validateBoxForm aliceForm)"
    by code_simp
  have g: "getSubmissionData aliceForm = Inr alice"
    by code_simp
  have h3: "calculateShippingCost (weight alice) (country alice) = Inr (fl (2306 / 100))"
    using price_2_china by (simp add: alice_def)
  have h4: "calculateShippingCost (weight (alice\<lparr>country := Some ''Mars''\<rparr>))
      (country (alice\<lparr>country := Some ''Mars''\<rparr>))
        = Inl (Error ''Shipping rate not found for country: Mars'')"
    by code_simp
  note a = C1_submit_validates_add_does_not
    [of "candidateAsForm (alice\<lparr>weight := Some (Fin (- 1))\<rparr>)" env1 createInitialState
        alice "fl (2306 / 100)"]
  note b = C1_submit_validates_add_does_not
    [of aliceForm env1 createInitialState "alice\<lparr>country := Some ''Mars''\<rparr>" _
        "Error ''Shipping rate not found for country: Mars''"]
  from b [THEN conjunct2, THEN conjunct1, THEN mp, OF h2] g
  have r2: "handleSubmit env1 aliceForm createInitialState
       = snd (addBox env1 (Some alice) (boxReducer createInitialState CLEAR_ERROR))"
    by auto
  from a [THEN conjunct1, THEN mp, OF h1] r2
    a [THEN conjunct2, THEN conjunct2, THEN conjunct1, THEN mp, OF h3, THEN conjunct1]
    b [THEN conjunct2, THEN conjunct2, THEN conjunct2, THEN conjunct1, THEN mp, OF h4]
  show ?thesis by (intro conjI)
qed

section \<open>Properties of updating a box\<close>





























section \<open>Properties of the colour codec\<close>

lemma hex_chars:
  "map char_of ([48 ..< 58] @ [97 ..< 103] @ [65 ..< 71] :: nat list) = ''0123456789abcdefABCDEF''"
  by code_simp

lemma isHexDigit_table: "isHexDigit c \<longleftrightarrow> c \<in> set ''0123456789abcdefABCDEF''"
proof
  assume "c \<in> set ''0123456789abcdefABCDEF''"
  then show "isHexDigit c"
    by (auto simp: isHexDigit_def)
next
  assume h: "isHexDigit c"
  define n where "n = (of_char c :: nat)"
  from h have "n \<in> {48..<58} \<union> ({97..<103} \<union> {65..<71})"
    by (auto simp: isHexDigit_def Let_def n_def)
  then have "n \<in> set ([48 ..< 58] @ [97 ..< 103] @ [65 ..< 71])"
    by (simp only: set_append set_upt)
  then have "char_of n \<in> char_of ` set ([48 ..< 58] @ [97 ..< 103] @ [65 ..< 71])"
    by (rule imageI)
  moreover have "char_of n = c" by (simp add: n_def)
  ultimately have "c \<in> set (map char_of ([48 ..< 58] @ [97 ..< 103] @ [65 ..< 71] :: nat list))"
    by (simp only: set_map)
  then show "c \<in> set ''0123456789abcdefABCDEF''"
    by (simp only: hex_chars)
qed

lemma hexDigits_value: "isHexDigit c \<Longrightarrow> map_of hexDigits c = Some (digitVal c)"
  unfolding isHexDigit_table
  by (auto simp: hexDigits_def digitVal_def upt_rec)

lemma digitVal_hex_le: "isHexDigit c \<Longrightarrow> digitVal c \<le> 15"
  unfolding isHexDigit_table by (auto simp: digitVal_def)

lemma hex_not_hash: "isHexDigit c \<Longrightarrow> c \<noteq> CHR ''#''"
  unfolding isHexDigit_table by auto

lemma upperChar_hex:
  assumes "isHexDigit c"
  shows "isHexDigit (upperChar c) \<and> digitVal (upperChar c) = digitVal c"
proof -
  from assms have "c \<in> set ''0123456789abcdefABCDEF''"
    by (simp only: isHexDigit_table)
  then show ?thesis
    by (auto simp: upperChar_def digitVal_def isHexDigit_def)
qed

lemma length_six:
  "length t = 6 \<Longrightarrow> \<exists>a b c d e f. t = [a, b, c, d, e, f]"
  by (auto simp: length_Suc_conv eval_nat_numeral)

lemma hexExec_plain:
  "list_all isHexDigit [a, b, c, d, e, f] \<Longrightarrow>
     hexExec [a, b, c, d, e, f] = Some ([a, b], [c, d], [e, f])"
  by (auto simp: hexExec_def dest: hex_not_hash)

lemma hexExec_hash:
  "list_all isHexDigit [a, b, c, d, e, f] \<Longrightarrow>
     hexExec (CHR ''#'' # [a, b, c, d, e, f]) = Some ([a, b], [c, d], [e, f])"
  by (simp add: hexExec_def)

lemma hexExec_Some:
  assumes "hexExec s = Some m"
  shows "\<exists>a b c d e f. list_all isHexDigit [a, b, c, d, e, f]
           \<and> (s = [a, b, c, d, e, f] \<or> s = CHR ''#'' # [a, b, c, d, e, f])"
proof -
  define t where "t = (if take 1 s = ''#'' then drop 1 s else s)"
  from assms have t: "length t = 6" "list_all isHexDigit t"
    by (simp_all add: hexExec_def t_def Let_def split: if_splits)
  from length_six [OF t(1)] obtain a b c d e f where abc: "t = [a, b, c, d, e, f]"
    by blast
  have "s = t \<or> s = CHR ''#'' # t"
  proof (cases "take 1 s = ''#''")
    case True
    then have "s = CHR ''#'' # drop 1 s"
      by (cases s) simp_all
    with True show ?thesis by (simp add: t_def)
  next
    case False
    then show ?thesis by (simp add: t_def)
  qed
  with t(2) abc show ?thesis by blast
qed

lemma parseInt16_two: "parseInt16 [a, b] = 16 * digitVal a + digitVal b"
  by (simp add: parseInt16_def)

lemma hexToRgb_digits:
  assumes "list_all isHexDigit [a, b, c, d, e, f]"
  shows "hexToRgb (Some [a, b, c, d, e, f])
           = rgbTriplet (16 * digitVal a + digitVal b) (16 * digitVal c + digitVal d)
               (16 * digitVal e + digitVal f)"
    and "hexToRgb (Some (CHR ''#'' # [a, b, c, d, e, f]))
           = rgbTriplet (16 * digitVal a + digitVal b) (16 * digitVal c + digitVal d)
               (16 * digitVal e + digitVal f)"
  by (simp_all only: hexToRgb_def hexExec_plain [OF assms] hexExec_hash [OF assms]
        parseInt16_two rgbTriplet_def Let_def truthy_str.simps option.sel option.case
        prod.case list.distinct not_False_eq_True not_True_eq_False if_False if_True)

lemma hexToRgb_other:
  assumes "\<not> (\<exists>a b c d e f. list_all isHexDigit [a, b, c, d, e, f]
           \<and> (s = [a, b, c, d, e, f] \<or> s = CHR ''#'' # [a, b, c, d, e, f]))"
  shows "hexToRgb (Some s) = ''(0, 0, 0)''"
proof (cases "hexExec s")
  case None
  then show ?thesis by (simp add: hexToRgb_def)
next
  case (Some m)
  from hexExec_Some [OF this] assms show ?thesis by blast
qed

text \<open>
  C9. The encoder never throws. A value that is no string gives the fallback. Six
  hexadecimal digits (\<open>0\<close>..\<open>9\<close>, \<open>a\<close>..\<open>f\<close>, \<open>A\<close>..\<open>F\<close>, a letter counting the same in either
  case), with or without a \<open>#\<close> in front, give the triplet of the three byte values; any
  other string gives the fallback.
\<close>

theorem C9_hexToRgb_total:
  "hexToRgb None = ''(0, 0, 0)''
   \<and> (list_all isHexDigit [a, b, c, d, e, f] \<longrightarrow>
        hexToRgb (Some [a, b, c, d, e, f])
          = rgbTriplet (16 * digitVal a + digitVal b) (16 * digitVal c + digitVal d)
              (16 * digitVal e + digitVal f)
        \<and> hexToRgb (Some (CHR ''#'' # [a, b, c, d, e, f]))
          = rgbTriplet (16 * digitVal a + digitVal b) (16 * digitVal c + digitVal d)
              (16 * digitVal e + digitVal f)
        \<and> 16 * digitVal a + digitVal b \<le> 255)
   \<and> (isHexDigit x \<longleftrightarrow> x \<in> set ''0123456789abcdefABCDEF'')
   \<and> (isHexDigit x \<longrightarrow>
        map_of hexDigits x = Some (digitVal x) \<and> digitVal (upperChar x) = digitVal x)
   \<and> (\<not> (\<exists>a b c d e f. list_all isHexDigit [a, b, c, d, e, f]
           \<and> (s = [a, b, c, d, e, f] \<or> s = CHR ''#'' # [a, b, c, d, e, f])) \<longrightarrow>
        hexToRgb (Some s) = ''(0, 0, 0)'')"
proof (intro conjI impI)
  show "hexToRgb None = ''(0, 0, 0)''"
    by (simp add: hexToRgb_def)
next
  assume h: "list_all isHexDigit [a, b, c, d, e, f]"
  then show "hexToRgb (Some [a, b, c, d, e, f])
          = rgbTriplet (16 * digitVal a + digitVal b) (16 * digitVal c + digitVal d)
              (16 * digitVal e + digitVal f)"
    by (rule hexToRgb_digits(1))
  from h show "hexToRgb (Some (CHR ''#'' # [a, b, c, d, e, f]))
          = rgbTriplet (16 * digitVal a + digitVal b) (16 * digitVal c + digitVal d)
              (16 * digitVal e + digitVal f)"
    by (rule hexToRgb_digits(2))
  from h have "digitVal a \<le> 15" "digitVal b \<le> 15"
    by (simp_all add: digitVal_hex_le)
  then show "16 * digitVal a + digitVal b \<le> 255" by simp
next
  show "isHexDigit x \<longleftrightarrow> x \<in> set ''0123456789abcdefABCDEF''"
    by (rule isHexDigit_table)
next
  assume "isHexDigit x"
  then show "map_of hexDigits x = Some (digitVal x)"
    by (rule hexDigits_value)
next
  assume "isHexDigit x"
  then show "digitVal (upperChar x) = digitVal x"
    by (simp add: upperChar_hex)
next
  assume "\<not> (\<exists>a b c d e f. list_all isHexDigit [a, b, c, d, e, f]
           \<and> (s = [a, b, c, d, e, f] \<or> s = CHR ''#'' # [a, b, c, d, e, f]))"
  then show "hexToRgb (Some s) = ''(0, 0, 0)''"
    by (rule hexToRgb_other)
qed

theorem C9_hexToRgb_total_witness:
  "hexToRgb (Some ''#ff0000'') = ''(255, 0, 0)''
   \<and> hexToRgb (Some ''FF00ab'') = ''(255, 0, 171)''
   \<and> hexToRgb (Some ''invalid'') = ''(0, 0, 0)''"
proof -
  have h1: "list_all isHexDigit ''ff0000''" by code_simp
  have h2: "list_all isHexDigit ''FF00ab''" by code_simp
  have h3: "\<not> (\<exists>a b c d e f. list_all isHexDigit [a, b, c, d, e, f]
       \<and> (''invalid'' = [a, b, c, d, e, f] \<or> ''invalid'' = CHR ''#'' # [a, b, c, d, e, f]))"
    by simp
  have v1: "rgbTriplet (16 * digitVal CHR ''f'' + digitVal CHR ''f'')
      (16 * digitVal CHR ''0'' + digitVal CHR ''0'') (16 * digitVal CHR ''0'' + digitVal CHR ''0'')
        = ''(255, 0, 0)''"
    by code_simp
  have v2: "rgbTriplet (16 * digitVal CHR ''F'' + digitVal CHR ''F'')
      (16 * digitVal CHR ''0'' + digitVal CHR ''0'') (16 * digitVal CHR ''a'' + digitVal CHR ''b'')
        = ''(255, 0, 171)''"
    by code_simp
  note a = C9_hexToRgb_total [of "CHR ''f''" "CHR ''f''" "CHR ''0''" "CHR ''0''" "CHR ''0''"
      "CHR ''0''" _ "''invalid''"]
  note b = C9_hexToRgb_total [of "CHR ''F''" "CHR ''F''" "CHR ''0''" "CHR ''0''" "CHR ''a''"
      "CHR ''b''"]
  from a [THEN conjunct2, THEN conjunct1, THEN mp, OF h1, THEN conjunct2, THEN conjunct1]
  have r1: "hexToRgb (Some ''#ff0000'') = ''(255, 0, 0)''"
    unfolding v1 .
  from b [THEN conjunct2, THEN conjunct1, THEN mp, OF h2, THEN conjunct1]
  have r2: "hexToRgb (Some ''FF00ab'') = ''(255, 0, 171)''"
    unfolding v2 .
  from a [THEN conjunct2, THEN conjunct2, THEN conjunct2, THEN conjunct2, THEN mp, OF h3]
  have r3: "hexToRgb (Some ''invalid'') = ''(0, 0, 0)''" .
  from r1 r2 r3 show ?thesis by (intro conjI)
qed

lemma isDigit_table: "isDigit c \<longleftrightarrow> c \<in> set ''0123456789''"
proof
  assume "c \<in> set ''0123456789''"
  then show "isDigit c" by (auto simp: isDigit_def)
next
  assume h: "isDigit c"
  have L: "map char_of ([48 ..< 58] :: nat list) = ''0123456789''" by code_simp
  define n where "n = (of_char c :: nat)"
  from h have "n \<in> {48 ..< 58}"
    by (auto simp: isDigit_def n_def)
  then have "n \<in> set [48 ..< 58]"
    by (simp only: set_upt)
  then have "char_of n \<in> char_of ` set [48 ..< 58]"
    by (rule imageI)
  moreover have "char_of n = c" by (simp add: n_def)
  ultimately have "c \<in> set (map char_of ([48 ..< 58] :: nat list))"
    by (simp only: set_map)
  then show "c \<in> set ''0123456789''" by (simp only: L)
qed

lemma digit_not_other:
  assumes "isDigit c"
  shows "\<not> isWhiteSpace c" and "c \<noteq> CHR '',''" and "c \<noteq> CHR '')''" and "c \<noteq> CHR ''(''"
  using assms unfolding isDigit_table by (auto simp: isWhiteSpace_def)

lemma not_digit: "\<not> isDigit CHR '',''" "\<not> isDigit CHR '')''" "\<not> isWhiteSpace CHR '',''"
  by (simp_all add: isDigit_def isWhiteSpace_def)

lemma showNat_digits: "isDigits (showNat n)"
proof (induction n rule: showNat.induct)
  case (1 n)
  show ?case
  proof (cases "n < 10")
    case True
    then have "isDigit (char_of (48 + n))"
      by (simp add: isDigit_def)
    with True show ?thesis
      by (simp add: showNat.simps [of n] isDigits_def)
  next
    case False
    have "n mod 10 < 10" by simp
    then have "isDigit (char_of (48 + n mod 10))"
      by (simp add: isDigit_def)
    with False 1 show ?thesis
      by (simp add: showNat.simps [of n] isDigits_def)
  qed
qed

lemma takeWhile_run:
  "list_all P xs \<Longrightarrow> \<not> P y \<Longrightarrow> takeWhile P (xs @ y # ys) = xs"
  by (induction xs) simp_all

lemma dropWhile_run:
  "list_all P xs \<Longrightarrow> \<not> P y \<Longrightarrow> dropWhile P (xs @ y # ys) = y # ys"
  by (induction xs) simp_all

lemma isDigits_split: "isDigits ds \<Longrightarrow> \<exists>d ds'. ds = d # ds' \<and> isDigit d \<and> list_all isDigit ds'"
  by (cases ds) (simp_all add: isDigits_def)

text \<open>A run of digits followed by a character that is no digit is read as a whole.\<close>

lemma digits_then:
  assumes "isDigits ds" and "\<not> isDigit y"
  shows "takeWhile isDigit (ds @ y # ys) = ds" and "dropWhile isDigit (ds @ y # ys) = y # ys"
  using assms by (simp_all add: isDigits_def takeWhile_run dropWhile_run)

text \<open>White space followed by a run of digits is skipped up to the digits.\<close>

lemma spaces_then_digits:
  assumes "list_all isWhiteSpace w" and "isDigits ds"
  shows "dropWhile isWhiteSpace (w @ ds @ rest) = ds @ rest"
proof -
  from isDigits_split [OF assms(2)] obtain d ds' where d: "ds = d # ds'" "isDigit d"
    by blast
  from d(2) have "\<not> isWhiteSpace d" by (rule digit_not_other(1))
  with assms(1) show ?thesis
    unfolding d(1) by (simp add: dropWhile_run)
qed

lemma expectChar_Cons: "expectChar c (c # t) = Some t"
  by (simp add: expectChar_def)

lemma expectChar_Some: "expectChar c s = Some t \<Longrightarrow> s = c # t"
  by (cases s) (simp_all add: expectChar_def split: if_splits)

lemma digitRun_then:
  "isDigits ds \<Longrightarrow> \<not> isDigit y \<Longrightarrow> digitRun (ds @ y # ys) = Some (ds, y # ys)"
  by (simp add: digitRun_def digits_then) (simp add: isDigits_def)

lemma digitRun_Some:
  assumes "digitRun s = Some (ds, t)"
  shows "s = ds @ t" and "isDigits ds"
proof -
  from assms have d: "ds = takeWhile isDigit s" "ds \<noteq> []" "t = dropWhile isDigit s"
    by (simp_all add: digitRun_def split: if_splits)
  from d(1,3) show "s = ds @ t" by simp
  from d(1,2) show "isDigits ds"
    by (auto simp: isDigits_def list_all_iff dest: set_takeWhileD)
qed

lemma rgbMatchHere_shape:
  assumes "isDigits r" "isDigits g" "isDigits b"
    and "list_all isWhiteSpace w1" "list_all isWhiteSpace w2"
  shows "rgbMatchHere (rgbShape r w1 g w2 b @ post) = Some (r, g, b)"
proof -
  have s: "rgbShape r w1 g w2 b @ post
     = CHR ''('' # (r @ CHR '','' # (w1 @ g @ (CHR '','' # (w2 @ b @ (CHR '')'' # post)))))"
    by (simp add: rgbShape_def)
  have 1: "digitRun (r @ CHR '','' # (w1 @ g @ (CHR '','' # (w2 @ b @ (CHR '')'' # post)))))
       = Some (r, CHR '','' # (w1 @ g @ (CHR '','' # (w2 @ b @ (CHR '')'' # post)))))"
    by (rule digitRun_then [OF assms(1) not_digit(1)])
  have 2: "dropWhile isWhiteSpace (w1 @ g @ (CHR '','' # (w2 @ b @ (CHR '')'' # post))))
       = g @ (CHR '','' # (w2 @ b @ (CHR '')'' # post)))"
    by (rule spaces_then_digits [OF assms(4) assms(2)])
  have 3: "digitRun (g @ CHR '','' # (w2 @ b @ (CHR '')'' # post)))
       = Some (g, CHR '','' # (w2 @ b @ (CHR '')'' # post)))"
    by (rule digitRun_then [OF assms(2) not_digit(1)])
  have 4: "dropWhile isWhiteSpace (w2 @ b @ (CHR '')'' # post)) = b @ (CHR '')'' # post)"
    by (rule spaces_then_digits [OF assms(5) assms(3)])
  have 5: "digitRun (b @ CHR '')'' # post) = Some (b, CHR '')'' # post)"
    by (rule digitRun_then [OF assms(3) not_digit(2)])
  show ?thesis
    unfolding s by (simp add: rgbMatchHere_def expectChar_Cons 1 2 3 4 5)
qed

lemma rgbMatchHere_Some:
  assumes "rgbMatchHere m = Some (r, g, b)"
  shows "\<exists>w1 w2 post. m = rgbShape r w1 g w2 b @ post \<and> isDigits r \<and> isDigits g \<and> isDigits b
           \<and> list_all isWhiteSpace w1 \<and> list_all isWhiteSpace w2"
proof -
  from assms obtain s0 s1 s2 s3 s4 s5 s6 where
    a: "expectChar CHR ''('' m = Some s0" "digitRun s0 = Some (r, s1)"
      "expectChar CHR '','' s1 = Some s2" "digitRun (dropWhile isWhiteSpace s2) = Some (g, s3)"
      "expectChar CHR '','' s3 = Some s4" "digitRun (dropWhile isWhiteSpace s4) = Some (b, s5)"
      "expectChar CHR '')'' s5 = Some s6"
    by (auto simp: rgbMatchHere_def bind_eq_Some_conv)
  have e2: "s2 = takeWhile isWhiteSpace s2 @ g @ s3"
    using digitRun_Some(1) [OF a(4)] takeWhile_dropWhile_id [of isWhiteSpace s2] by simp
  have e4: "s4 = takeWhile isWhiteSpace s4 @ b @ s5"
    using digitRun_Some(1) [OF a(6)] takeWhile_dropWhile_id [of isWhiteSpace s4] by simp
  have "m = rgbShape r (takeWhile isWhiteSpace s2) g (takeWhile isWhiteSpace s4) b @ s6"
    apply (subst expectChar_Some [OF a(1)])
    apply (subst digitRun_Some(1) [OF a(2)])
    apply (subst expectChar_Some [OF a(3)])
    apply (subst e2)
    apply (subst expectChar_Some [OF a(5)])
    apply (subst e4)
    apply (subst expectChar_Some [OF a(7)])
    apply (simp add: rgbShape_def)
    done
  moreover have "list_all isWhiteSpace (takeWhile isWhiteSpace s2)"
    "list_all isWhiteSpace (takeWhile isWhiteSpace s4)"
    by (auto simp: list_all_iff dest: set_takeWhileD)
  ultimately show ?thesis
    using digitRun_Some(2) [OF a(2)] digitRun_Some(2) [OF a(4)] digitRun_Some(2) [OF a(6)]
    by blast
qed

lemma rgbMatch_here: "rgbMatchHere m = Some x \<Longrightarrow> rgbMatch m = Some x"
  by (cases m) (simp_all add: rgbMatchHere_def expectChar_def)

lemma rgbMatchHere_Nil: "rgbMatchHere [] = None"
  by (simp add: rgbMatchHere_def expectChar_def)

text \<open>A string starts with the shape exactly when the pattern matches at its start.\<close>

lemma startsWithTriplet_iff:
  "startsWithTriplet m r g b \<longleftrightarrow> rgbMatchHere m = Some (r, g, b)"
proof
  assume "startsWithTriplet m r g b"
  then obtain w1 w2 post where "m = rgbShape r w1 g w2 b @ post"
    and "isDigits r" "isDigits g" "isDigits b"
      "list_all isWhiteSpace w1" "list_all isWhiteSpace w2"
    unfolding startsWithTriplet_def by blast
  then show "rgbMatchHere m = Some (r, g, b)"
    using rgbMatchHere_shape by simp
next
  assume "rgbMatchHere m = Some (r, g, b)"
  from rgbMatchHere_Some [OF this] show "startsWithTriplet m r g b"
    unfolding startsWithTriplet_def .
qed

lemma no_triplet_iff:
  "(\<forall>r g b. \<not> startsWithTriplet m r g b) \<longleftrightarrow> rgbMatchHere m = None"
  by (cases "rgbMatchHere m") (auto simp: startsWithTriplet_iff)

text \<open>The search returns the match at the leftmost place where the pattern matches.\<close>

lemma rgbMatch_leftmost:
  assumes "rgbMatchHere m = Some x"
    and "\<forall>p1 p2. pre = p1 @ p2 \<and> p2 \<noteq> [] \<longrightarrow> rgbMatchHere (p2 @ m) = None"
  shows "rgbMatch (pre @ m) = Some x"
  using assms(2)
proof (induction pre)
  case Nil
  from assms(1) show ?case by (simp add: rgbMatch_here)
next
  case (Cons c pre)
  from Cons.prems have "rgbMatchHere ((c # pre) @ m) = None"
    by blast
  then have 1: "rgbMatch ((c # pre) @ m) = rgbMatch (pre @ m)"
    by simp
  have "\<forall>p1 p2. pre = p1 @ p2 \<and> p2 \<noteq> [] \<longrightarrow> rgbMatchHere (p2 @ m) = None"
  proof (intro allI impI)
    fix p1 p2 assume "pre = p1 @ p2 \<and> p2 \<noteq> []"
    then have "c # pre = (c # p1) @ p2 \<and> p2 \<noteq> []" by simp
    with Cons.prems show "rgbMatchHere (p2 @ m) = None" by blast
  qed
  from Cons.IH [OF this] 1 show ?case by simp
qed

lemma rgbMatch_Some_leftmost:
  "rgbMatch s = Some x \<Longrightarrow>
     \<exists>pre m. s = pre @ m \<and> rgbMatchHere m = Some x
        \<and> (\<forall>p1 p2. pre = p1 @ p2 \<and> p2 \<noteq> [] \<longrightarrow> rgbMatchHere (p2 @ m) = None)"
proof (induction s)
  case Nil
  then show ?case by simp
next
  case (Cons c s)
  show ?case
  proof (cases "rgbMatchHere (c # s)")
    case None
    with Cons.prems have "rgbMatch s = Some x" by simp
    from Cons.IH [OF this] obtain pre m where m: "s = pre @ m" "rgbMatchHere m = Some x"
      and l: "\<forall>p1 p2. pre = p1 @ p2 \<and> p2 \<noteq> [] \<longrightarrow> rgbMatchHere (p2 @ m) = None"
      by blast
    have "\<forall>p1 p2. c # pre = p1 @ p2 \<and> p2 \<noteq> [] \<longrightarrow> rgbMatchHere (p2 @ m) = None"
    proof (intro allI impI)
      fix p1 p2 assume h: "c # pre = p1 @ p2 \<and> p2 \<noteq> []"
      show "rgbMatchHere (p2 @ m) = None"
      proof (cases p1)
        case Nil
        with h have "p2 @ m = c # s" by (simp add: m(1))
        with None show ?thesis by simp
      next
        case (Cons d p1')
        with h have "pre = p1' @ p2 \<and> p2 \<noteq> []" by simp
        with l show ?thesis by blast
      qed
    qed
    with m have "c # s = (c # pre) @ m \<and> rgbMatchHere m = Some x
        \<and> (\<forall>p1 p2. c # pre = p1 @ p2 \<and> p2 \<noteq> [] \<longrightarrow> rgbMatchHere (p2 @ m) = None)"
      by simp
    then show ?thesis by blast
  next
    case (Some y)
    with Cons.prems have "y = x" by simp
    with Some have "c # s = [] @ (c # s) \<and> rgbMatchHere (c # s) = Some x
        \<and> (\<forall>p1 p2. [] = p1 @ p2 \<and> p2 \<noteq> [] \<longrightarrow> rgbMatchHere (p2 @ (c # s)) = None)"
      by simp
    then show ?thesis by blast
  qed
qed

lemma rgbMatch_None_all:
  "rgbMatch (p @ m) = None \<Longrightarrow> rgbMatchHere m = None"
proof (induction p)
  case Nil
  then show ?case
    by (cases m) (simp_all add: rgbMatchHere_Nil split: option.splits)
next
  case (Cons c p)
  then show ?case by (simp split: option.splits)
qed

lemma rgbToColor_Some:
  assumes "rgbMatch s = Some (r, g, b)"
  shows "rgbToColor (Some s) = ''rgb('' @ r @ '', '' @ g @ '', '' @ b @ '')''"
proof -
  from assms have "s \<noteq> []" by auto
  with assms show ?thesis by (simp add: rgbToColor_def)
qed

lemma rgbToColor_None:
  "rgbMatch s = None \<Longrightarrow> rgbToColor (Some s) = ''#000000''"
  by (simp add: rgbToColor_def)

lemma rgbToColor_leftmost:
  assumes "startsWithTriplet m r g b"
    and "\<forall>p1 p2 r' g' b'. pre = p1 @ p2 \<and> p2 \<noteq> [] \<longrightarrow> \<not> startsWithTriplet (p2 @ m) r' g' b'"
  shows "rgbToColor (Some (pre @ m)) = ''rgb('' @ r @ '', '' @ g @ '', '' @ b @ '')''"
proof -
  from assms(1) have 1: "rgbMatchHere m = Some (r, g, b)"
    by (simp only: startsWithTriplet_iff)
  have 2: "\<forall>p1 p2. pre = p1 @ p2 \<and> p2 \<noteq> [] \<longrightarrow> rgbMatchHere (p2 @ m) = None"
  proof (intro allI impI)
    fix p1 p2 assume "pre = p1 @ p2 \<and> p2 \<noteq> []"
    with assms(2) have "\<forall>r' g' b'. \<not> startsWithTriplet (p2 @ m) r' g' b'" by blast
    then show "rgbMatchHere (p2 @ m) = None" by (simp only: no_triplet_iff)
  qed
  from rgbMatch_leftmost [OF 1 2] show ?thesis by (rule rgbToColor_Some)
qed

lemma rgbToColor_occurs:
  assumes "s = p @ m" and "startsWithTriplet m r g b"
  shows "\<exists>pre m r g b. s = pre @ m \<and> startsWithTriplet m r g b
      \<and> (\<forall>p1 p2 r' g' b'. pre = p1 @ p2 \<and> p2 \<noteq> [] \<longrightarrow> \<not> startsWithTriplet (p2 @ m) r' g' b')
      \<and> rgbToColor (Some s) = ''rgb('' @ r @ '', '' @ g @ '', '' @ b @ '')''"
proof -
  from assms(2) have "rgbMatchHere m \<noteq> None"
    by (simp add: startsWithTriplet_iff)
  with rgbMatch_None_all [of p m] assms(1) have "rgbMatch s \<noteq> None" by blast
  then obtain r1 g1 b1 where x: "rgbMatch s = Some (r1, g1, b1)" by auto
  from rgbMatch_Some_leftmost [OF x] obtain pre m1 where m: "s = pre @ m1"
    "rgbMatchHere m1 = Some (r1, g1, b1)"
    and l: "\<forall>p1 p2. pre = p1 @ p2 \<and> p2 \<noteq> [] \<longrightarrow> rgbMatchHere (p2 @ m1) = None"
    by blast
  from m(2) have 1: "startsWithTriplet m1 r1 g1 b1"
    by (simp only: startsWithTriplet_iff)
  have 2: "\<forall>p1 p2 r' g' b'. pre = p1 @ p2 \<and> p2 \<noteq> [] \<longrightarrow>
      \<not> startsWithTriplet (p2 @ m1) r' g' b'"
    using l by (simp add: startsWithTriplet_iff)
  from m(1) 1 2 rgbToColor_Some [OF x] show ?thesis by blast
qed

lemma rgbToColor_nowhere:
  assumes "\<forall>p m r g b. s = p @ m \<longrightarrow> \<not> startsWithTriplet m r g b"
  shows "rgbToColor (Some s) = ''#000000''"
proof (cases "rgbMatch s")
  case None
  then show ?thesis by (rule rgbToColor_None)
next
  case (Some x)
  from rgbMatch_Some_leftmost [OF Some] obtain pre m where "s = pre @ m" "rgbMatchHere m = Some x"
    by blast
  with assms show ?thesis
    by (cases x) (auto simp: startsWithTriplet_iff)
qed

lemma rgbToColor_triplet:
  "rgbToColor (Some (rgbTriplet x y z))
     = ''rgb('' @ showNat x @ '', '' @ showNat y @ '', '' @ showNat z @ '')''"
proof -
  have "rgbTriplet x y z = rgbShape (showNat x) '' '' (showNat y) '' '' (showNat z) @ []"
    by (simp add: rgbTriplet_def rgbShape_def)
  moreover have "rgbMatchHere (rgbShape (showNat x) '' '' (showNat y) '' '' (showNat z) @ [])
      = Some (showNat x, showNat y, showNat z)"
    by (rule rgbMatchHere_shape) (simp_all add: showNat_digits isWhiteSpace_def)
  ultimately have "rgbMatch (rgbTriplet x y z) = Some (showNat x, showNat y, showNat z)"
    by (simp only: rgbMatch_here)
  then show ?thesis by (rule rgbToColor_Some)
qed

lemma nowhere_by_search:
  "rgbMatch s = None \<Longrightarrow> \<forall>p m r g b. s = p @ m \<longrightarrow> \<not> startsWithTriplet m r g b"
  using rgbMatch_None_all by (auto simp: startsWithTriplet_iff)

text \<open>
  C8, as stated, fails: a string that is not of the shape \<open>(r, g, b)\<close> (text around the
  triplet, no space after the commas) is decoded, not answered with the fallback.
\<close>

theorem C8_counterexample:
  "rgbToColor (Some ''garbage(255,0,0)!'') = ''rgb(255, 0, 0)''"
  by code_simp

text \<open>
  C8, amended. The decoder never throws. A value that is no string and the empty string
  give the fallback. Every triplet the encoder prints is decoded to \<open>rgb(r, g, b)\<close>. More
  widely, the shape the decoder looks for is an opening bracket, three runs of digits
  separated by a comma and any white space, and a closing bracket. A string that
  contains the shape anywhere is decoded to the three runs of the leftmost place where
  the shape starts, whatever comes before and after it; a string that contains it
  nowhere gives the fallback.
\<close>

theorem C8_rgbToColor_finds_triplet:
  "rgbToColor None = ''#000000''
   \<and> rgbToColor (Some []) = ''#000000''
   \<and> rgbToColor (Some (rgbTriplet x y z))
       = ''rgb('' @ showNat x @ '', '' @ showNat y @ '', '' @ showNat z @ '')''
   \<and> (startsWithTriplet m r g b
        \<and> (\<forall>p1 p2 r' g' b'. pre = p1 @ p2 \<and> p2 \<noteq> [] \<longrightarrow>
              \<not> startsWithTriplet (p2 @ m) r' g' b') \<longrightarrow>
      rgbToColor (Some (pre @ m)) = ''rgb('' @ r @ '', '' @ g @ '', '' @ b @ '')'')
   \<and> ((\<exists>p m r g b. s = p @ m \<and> startsWithTriplet m r g b) \<longrightarrow>
      (\<exists>pre m r g b. s = pre @ m \<and> startsWithTriplet m r g b
         \<and> (\<forall>p1 p2 r' g' b'. pre = p1 @ p2 \<and> p2 \<noteq> [] \<longrightarrow>
               \<not> startsWithTriplet (p2 @ m) r' g' b')
         \<and> rgbToColor (Some s) = ''rgb('' @ r @ '', '' @ g @ '', '' @ b @ '')''))
   \<and> ((\<forall>p m r g b. t = p @ m \<longrightarrow> \<not> startsWithTriplet m r g b) \<longrightarrow>
      rgbToColor (Some t) = ''#000000'')"
proof (intro conjI impI)
  show "rgbToColor None = ''#000000''" by (simp add: rgbToColor_def)
  show "rgbToColor (Some []) = ''#000000''" by (simp add: rgbToColor_def)
  show "rgbToColor (Some (rgbTriplet x y z))
       = ''rgb('' @ showNat x @ '', '' @ showNat y @ '', '' @ showNat z @ '')''"
    by (rule rgbToColor_triplet)
next
  assume h: "startsWithTriplet m r g b
        \<and> (\<forall>p1 p2 r' g' b'. pre = p1 @ p2 \<and> p2 \<noteq> [] \<longrightarrow>
              \<not> startsWithTriplet (p2 @ m) r' g' b')"
  from h have 1: "startsWithTriplet m r g b" ..
  from h have 2: "\<forall>p1 p2 r' g' b'. pre = p1 @ p2 \<and> p2 \<noteq> [] \<longrightarrow>
      \<not> startsWithTriplet (p2 @ m) r' g' b'" ..
  from 1 2 show "rgbToColor (Some (pre @ m)) = ''rgb('' @ r @ '', '' @ g @ '', '' @ b @ '')''"
    by (rule rgbToColor_leftmost)
next
  assume "\<exists>p m r g b. s = p @ m \<and> startsWithTriplet m r g b"
  then obtain p m r g b where "s = p @ m" "startsWithTriplet m r g b" by blast
  then show "\<exists>pre m r g b. s = pre @ m \<and> startsWithTriplet m r g b
         \<and> (\<forall>p1 p2 r' g' b'. pre = p1 @ p2 \<and> p2 \<noteq> [] \<longrightarrow>
               \<not> startsWithTriplet (p2 @ m) r' g' b')
         \<and> rgbToColor (Some s) = ''rgb('' @ r @ '', '' @ g @ '', '' @ b @ '')''"
    by (rule rgbToColor_occurs)
next
  assume "\<forall>p m r g b. t = p @ m \<longrightarrow> \<not> startsWithTriplet m r g b"
  then show "rgbToColor (Some t) = ''#000000''"
    by (rule rgbToColor_nowhere)
qed

theorem C8_rgbToColor_finds_triplet_witness:
  "rgbToColor (Some ''(255, 0, 0)'') = ''rgb(255, 0, 0)''
   \<and> rgbToColor (Some ''((1,2,3)(4,5,6)'') = ''rgb(1, 2, 3)''
   \<and> rgbToColor (Some (''x(7,'' @ [CHR 0xA0] @ ''8,9)'')) = ''rgb(7, 8, 9)''
   \<and> take 4 (rgbToColor (Some ''garbage(255,0,0)!'')) = ''rgb(''
   \<and> rgbToColor (Some ''garbage'') = ''#000000''"
proof -
  have t: "rgbTriplet 255 0 0 = ''(255, 0, 0)''"
    "''rgb('' @ showNat 255 @ '', '' @ showNat 0 @ '', '' @ showNat 0 @ '')'' = ''rgb(255, 0, 0)''"
    by code_simp+
  have m1: "rgbMatchHere ''(1,2,3)(4,5,6)'' = Some (''1'', ''2'', ''3'')"
    and n1: "rgbMatchHere ''((1,2,3)(4,5,6)'' = None"
    and m2: "rgbMatchHere (''(7,'' @ [CHR 0xA0] @ ''8,9)'') = Some (''7'', ''8'', ''9'')"
    and n2: "rgbMatchHere (''x(7,'' @ [CHR 0xA0] @ ''8,9)'') = None"
    and m3: "rgbMatchHere ''(255,0,0)!'' = Some (''255'', ''0'', ''0'')"
    and n3: "rgbMatch ''garbage'' = None"
    by code_simp+
  have h1: "startsWithTriplet ''(1,2,3)(4,5,6)'' ''1'' ''2'' ''3''
     \<and> (\<forall>p1 p2 r' g' b'. ''('' = p1 @ p2 \<and> p2 \<noteq> [] \<longrightarrow>
           \<not> startsWithTriplet (p2 @ ''(1,2,3)(4,5,6)'') r' g' b')"
    using m1 n1 by (auto simp: startsWithTriplet_iff Cons_eq_append_conv)
  have h2: "startsWithTriplet (''(7,'' @ [CHR 0xA0] @ ''8,9)'') ''7'' ''8'' ''9''
     \<and> (\<forall>p1 p2 r' g' b'. ''x'' = p1 @ p2 \<and> p2 \<noteq> [] \<longrightarrow>
           \<not> startsWithTriplet (p2 @ (''(7,'' @ [CHR 0xA0] @ ''8,9)'')) r' g' b')"
    using m2 n2 by (auto simp: startsWithTriplet_iff Cons_eq_append_conv)
  have "startsWithTriplet ''(255,0,0)!'' ''255'' ''0'' ''0''"
    using m3 by (simp only: startsWithTriplet_iff)
  then have "''garbage(255,0,0)!'' = ''garbage'' @ ''(255,0,0)!''
     \<and> startsWithTriplet ''(255,0,0)!'' ''255'' ''0'' ''0''"
    by simp
  then have h3: "\<exists>p m r g b. ''garbage(255,0,0)!'' = p @ m \<and> startsWithTriplet m r g b"
    by blast
  from n3 have h4: "\<forall>p m r g b. ''garbage'' = p @ m \<longrightarrow> \<not> startsWithTriplet m r g b"
    by (rule nowhere_by_search)
  note a = C8_rgbToColor_finds_triplet
    [of 255 0 0 "''(1,2,3)(4,5,6)''" "''1''" "''2''" "''3''" "''(''"
        "''garbage(255,0,0)!''" "''garbage''"]
  note c = C8_rgbToColor_finds_triplet
    [of _ _ _ "''(7,'' @ [CHR 0xA0] @ ''8,9)''" "''7''" "''8''" "''9''" "''x''"]
  from a [THEN conjunct2, THEN conjunct2, THEN conjunct1]
  have r1: "rgbToColor (Some ''(255, 0, 0)'') = ''rgb(255, 0, 0)''"
    unfolding t .
  from a [THEN conjunct2, THEN conjunct2, THEN conjunct2, THEN conjunct1, THEN mp, OF h1]
  have r2: "rgbToColor (Some ''((1,2,3)(4,5,6)'') = ''rgb(1, 2, 3)''"
    by simp
  from c [THEN conjunct2, THEN conjunct2, THEN conjunct2, THEN conjunct1, THEN mp, OF h2]
  have r3: "rgbToColor (Some (''x(7,'' @ [CHR 0xA0] @ ''8,9)'')) = ''rgb(7, 8, 9)''"
    by simp
  from a [THEN conjunct2, THEN conjunct2, THEN conjunct2, THEN conjunct2, THEN conjunct1,
      THEN mp, OF h3]
  obtain r g b where "rgbToColor (Some ''garbage(255,0,0)!'')
      = ''rgb('' @ r @ '', '' @ g @ '', '' @ b @ '')''"
    by blast
  then have r4: "take 4 (rgbToColor (Some ''garbage(255,0,0)!'')) = ''rgb(''"
    by simp
  from a [THEN conjunct2, THEN conjunct2, THEN conjunct2, THEN conjunct2, THEN conjunct2,
      THEN mp, OF h4]
  have r5: "rgbToColor (Some ''garbage'') = ''#000000''" .
  from r1 r2 r3 r4 r5 show ?thesis by (intro conjI)
qed

end
